theory Spec2Isabelle
  imports Complex_Main "HOL-Library.Sublist"
begin

section \<open>Python values, exceptions and results\<close>

text \<open>
  The repository is a handful of small Python modules: \<^verbatim>\<open>utils/evaluation.py\<close> (the
  evaluation store), \<^verbatim>\<open>backend/translation_engine.py\<close>, \<^verbatim>\<open>backend/response_generator.py\<close>,
  \<^verbatim>\<open>backend/server.py\<close> (the HTTP service) and \<^verbatim>\<open>app.py\<close> (the interactive application).

  A Python \<^verbatim>\<open>str\<close> is modelled as a \<^typ>\<open>string\<close>, one list element for each character of
  the Python string. An exception is a value: its class name and its message (what
  \<^verbatim>\<open>str(e)\<close> prints). Every \<^verbatim>\<open>except\<close> clause of the repository is \<^verbatim>\<open>except Exception\<close>,
  and the model holds the exceptions below \<^verbatim>\<open>Exception\<close> only. The messages that the
  repository builds itself are exact; the message of an exception that a library raises
  stands for whatever the library prints.
\<close>

datatype exn = Exn (exn_class: string) (exn_msg: string)

type_synonym 'a result = "exn + 'a"

text \<open>The values that \<^verbatim>\<open>json\<close> reads and writes: \<^verbatim>\<open>None\<close>, booleans, integers, strings,
  lists, and dictionaries with string keys in insertion order.\<close>

datatype pyval =
    PNone
  | PBool bool
  | PInt int
  | PStr string
  | PList "pyval list"
  | PDict "(string \<times> pyval) list"

definition res_bind :: "'a result \<Rightarrow> ('a \<Rightarrow> 'b result) \<Rightarrow> 'b result" where
  "res_bind r f = (case r of Inl e \<Rightarrow> Inl e | Inr x \<Rightarrow> f x)"

section \<open>The evaluation store (utils/evaluation.py)\<close>

text \<open>
  The files are a map from a path to the text of the file there. The directory
  \<^verbatim>\<open>data/\<close> exists whenever a file is written: \<^verbatim>\<open>utils/evaluation.py\<close> creates it when the
  module is loaded (line 6), the writer of \<^verbatim>\<open>app.py\<close> right before it writes (line 94).
\<close>

type_synonym fs = "string \<rightharpoonup> string"

definition path_exists :: "fs \<Rightarrow> string \<Rightarrow> bool" where
  "path_exists files p = (files p \<noteq> None)"

definition read_text :: "fs \<Rightarrow> string \<Rightarrow> string result" where
  "read_text files p =
     (case files p of
        None \<Rightarrow> Inl (Exn ''FileNotFoundError'' p)
      | Some t \<Rightarrow> Inr t)"

definition write_text :: "fs \<Rightarrow> string \<Rightarrow> string \<Rightarrow> fs" where
  "write_text files p t = files(p \<mapsto> t)"

text \<open>
  The \<^verbatim>\<open>json\<close> module is Python's, not the repository's: the store takes it as a
  parameter. \<open>dumps J n v\<close> is \<^verbatim>\<open>json.dumps(v, indent=n)\<close>, \<open>loads J s\<close> is
  \<^verbatim>\<open>json.loads(s)\<close>, which raises on a text that is not JSON.
\<close>

record json_lib =
  dumps :: "nat \<Rightarrow> pyval \<Rightarrow> string"
  loads :: "string \<Rightarrow> pyval result"

text \<open>\<^verbatim>\<open>data.append(entry)\<close>: only a list has the method.\<close>

definition py_append :: "pyval \<Rightarrow> pyval \<Rightarrow> pyval result" where
  "py_append d e =
     (case d of
        PList xs \<Rightarrow> Inr (PList (xs @ [e]))
      | _ \<Rightarrow> Inl (Exn ''AttributeError'' ''object has no attribute append''))"

definition DATA_FILE :: string where
  "DATA_FILE = ''data/evaluations.json''"

text \<open>\<^verbatim>\<open>save_evaluation\<close>, lines 10 to 18. The \<^verbatim>\<open>try\<close> covers the read and the parse
  (lines 13 to 16); the \<^verbatim>\<open>append\<close> and the write are outside it.\<close>

definition save_evaluation :: "json_lib \<Rightarrow> fs \<Rightarrow> pyval \<Rightarrow> fs result" where
  "save_evaluation J files entry =
     (let data =
            (if path_exists files DATA_FILE
             then (case res_bind (read_text files DATA_FILE) (loads J) of
                     Inl e \<Rightarrow> PList []
                   | Inr v \<Rightarrow> v)
             else PList [])
      in res_bind (py_append data entry)
           (\<lambda>data'. Inr (write_text files DATA_FILE (dumps J 2 data'))))"

text \<open>\<^verbatim>\<open>load_evaluations\<close>, lines 21 to 24: no \<^verbatim>\<open>try\<close> around the parse.\<close>

definition load_evaluations :: "json_lib \<Rightarrow> fs \<Rightarrow> pyval result" where
  "load_evaluations J files =
     (if \<not> path_exists files DATA_FILE then Inr (PList [])
      else res_bind (read_text files DATA_FILE) (loads J))"

text \<open>Saving a sequence of entries one after the other; the first failure stops the
  sequence, as the exception would.\<close>

fun save_all :: "json_lib \<Rightarrow> fs \<Rightarrow> pyval list \<Rightarrow> fs result" where
  "save_all J files [] = Inr files"
| "save_all J files (e # es) = res_bind (save_evaluation J files e) (\<lambda>files'. save_all J files' es)"

text \<open>What the store needs of the \<^verbatim>\<open>json\<close> module: a value written with indent 2 is read
  back as itself.\<close>

definition json_roundtrip :: "json_lib \<Rightarrow> pyval \<Rightarrow> bool" where
  "json_roundtrip J v = (loads J (dumps J 2 v) = Inr v)"

subsection \<open>The fallback writer of app.py\<close>

definition LOCAL_FILE :: string where
  "LOCAL_FILE = ''data/evaluations_local.json''"

text \<open>Lines 91 to 102 of \<^verbatim>\<open>app.py\<close>, the \<^verbatim>\<open>except\<close> branch of \<^verbatim>\<open>save_evaluation_local\<close>.\<close>

definition save_evaluation_fallback :: "json_lib \<Rightarrow> fs \<Rightarrow> pyval \<Rightarrow> fs result" where
  "save_evaluation_fallback J files entry =
     (let p = LOCAL_FILE;
          data =
            (if path_exists files p
             then (case res_bind (read_text files p) (loads J) of
                     Inl e \<Rightarrow> PList []
                   | Inr v \<Rightarrow> v)
             else PList [])
      in res_bind (py_append data entry)
           (\<lambda>data'. Inr (write_text files p (dumps J 2 data'))))"

section \<open>A reference instance of the json module\<close>

text \<open>
  An executable instance of \<^typ>\<open>json_lib\<close>, for running the store on concrete files:
  the printer lays a value out as \<^verbatim>\<open>json.dumps\<close> does with an indent (a line for each
  element, a comma at the end of the line, \<^verbatim>\<open>": "\<close> after a key, every character outside
  the printable ASCII range escaped), and the reader is a recursive descent over the JSON grammar
  (integers only; a number with a fraction or an exponent is a float, which \<^typ>\<open>pyval\<close>
  does not have, and the reader rejects it). The reader's first argument bounds the
  number of its steps and is set from the length of the text.
\<close>

definition is_ws :: "char \<Rightarrow> bool" where
  "is_ws c = (c = CHR '' '' \<or> c = CHR 0x0A \<or> c = CHR 0x0D \<or> c = CHR 0x09)"

definition skip_ws :: "string \<Rightarrow> string" where
  "skip_ws s = dropWhile is_ws s"

definition hex_digits :: string where
  "hex_digits = ''0123456789abcdef''"

fun dec_digits :: "nat \<Rightarrow> string" where
  "dec_digits n =
     (if n < 10 then [hex_digits ! n] else dec_digits (n div 10) @ [hex_digits ! (n mod 10)])"

definition int_text :: "int \<Rightarrow> string" where
  "int_text i = (if i < 0 then CHR ''-'' # dec_digits (nat (- i)) else dec_digits (nat i))"

definition escape_char :: "char \<Rightarrow> string" where
  "escape_char c =
     (if c = CHR 0x22 then [CHR 0x5C, CHR 0x22]
      else if c = CHR 0x5C then [CHR 0x5C, CHR 0x5C]
      else if c = CHR 0x0A then [CHR 0x5C, CHR ''n'']
      else if c = CHR 0x0D then [CHR 0x5C, CHR ''r'']
      else if c = CHR 0x09 then [CHR 0x5C, CHR ''t'']
      else if c = CHR 0x08 then [CHR 0x5C, CHR ''b'']
      else if c = CHR 0x0C then [CHR 0x5C, CHR ''f'']
      else if (of_char c :: nat) < 32 \<or> 126 < (of_char c :: nat)
        then [CHR 0x5C, CHR ''u'', CHR ''0'', CHR ''0'',
              hex_digits ! ((of_char c :: nat) div 16), hex_digits ! ((of_char c :: nat) mod 16)]
      else [c])"

definition str_text :: "string \<Rightarrow> string" where
  "str_text s = CHR 0x22 # concat (map escape_char s) @ [CHR 0x22]"

definition pad :: "nat \<Rightarrow> string" where
  "pad n = replicate n CHR '' ''"

definition join_lines :: "string \<Rightarrow> string list \<Rightarrow> string" where
  "join_lines sep xs = (case xs of [] \<Rightarrow> [] | x # rest \<Rightarrow> x @ concat (map (\<lambda>y. sep @ y) rest))"

fun pretty :: "nat \<Rightarrow> nat \<Rightarrow> pyval \<Rightarrow> string" where
  "pretty ind lvl PNone = ''null''"
| "pretty ind lvl (PBool b) = (if b then ''true'' else ''false'')"
| "pretty ind lvl (PInt i) = int_text i"
| "pretty ind lvl (PStr s) = str_text s"
| "pretty ind lvl (PList xs) =
     (if xs = [] then ''[]''
      else ''['' @ [CHR 0x0A] @ pad (ind * Suc lvl)
        @ join_lines ('','' @ [CHR 0x0A] @ pad (ind * Suc lvl)) (map (pretty ind (Suc lvl)) xs)
        @ [CHR 0x0A] @ pad (ind * lvl) @ '']'')"
| "pretty ind lvl (PDict kvs) =
     (if kvs = [] then ''{}''
      else ''{'' @ [CHR 0x0A] @ pad (ind * Suc lvl)
        @ join_lines ('','' @ [CHR 0x0A] @ pad (ind * Suc lvl))
            (map (\<lambda>(k, v). str_text k @ '': '' @ pretty ind (Suc lvl) v) kvs)
        @ [CHR 0x0A] @ pad (ind * lvl) @ ''}'')"

definition hex_val :: "char \<Rightarrow> nat option" where
  "hex_val c =
     (let n = (of_char c :: nat) in
      if 48 \<le> n \<and> n \<le> 57 then Some (n - 48)
      else if 97 \<le> n \<and> n \<le> 102 then Some (n - 87)
      else if 65 \<le> n \<and> n \<le> 70 then Some (n - 55)
      else None)"

definition unescape :: "char \<Rightarrow> char option" where
  "unescape e =
     (if e = CHR 0x22 \<or> e = CHR 0x5C \<or> e = CHR ''/'' then Some e
      else if e = CHR ''n'' then Some (CHR 0x0A)
      else if e = CHR ''r'' then Some (CHR 0x0D)
      else if e = CHR ''t'' then Some (CHR 0x09)
      else if e = CHR ''b'' then Some (CHR 0x08)
      else if e = CHR ''f'' then Some (CHR 0x0C)
      else None)"

definition unicode_escape :: "string \<Rightarrow> char option" where
  "unicode_escape hs =
     (case map hex_val hs of
        [Some a, Some b, Some c, Some d] \<Rightarrow>
          (if a = 0 \<and> b = 0 then Some (char_of (16 * c + d)) else None)
      | _ \<Rightarrow> None)"

fun scan_chars :: "nat \<Rightarrow> string \<Rightarrow> (string \<times> string) option" where
  "scan_chars 0 s = None"
| "scan_chars (Suc n) s =
     (case s of
        [] \<Rightarrow> None
      | c # cs \<Rightarrow>
          if c = CHR 0x22 then Some ([], cs)
          else if c = CHR 0x5C then
            (case cs of
               [] \<Rightarrow> None
             | e # cs' \<Rightarrow>
                 if e = CHR ''u'' then
                   (case unicode_escape (take 4 cs') of
                      None \<Rightarrow> None
                    | Some ch \<Rightarrow> map_option (apfst ((#) ch)) (scan_chars n (drop 4 cs')))
                 else
                   (case unescape e of
                      None \<Rightarrow> None
                    | Some ch \<Rightarrow> map_option (apfst ((#) ch)) (scan_chars n cs')))
          else if (of_char c :: nat) < 32 then None
          else map_option (apfst ((#) c)) (scan_chars n cs))"

definition is_digit :: "char \<Rightarrow> bool" where
  "is_digit c = (48 \<le> (of_char c :: nat) \<and> (of_char c :: nat) \<le> 57)"

definition digits_value :: "string \<Rightarrow> nat" where
  "digits_value ds = foldl (\<lambda>acc c. 10 * acc + ((of_char c :: nat) - 48)) 0 ds"

definition scan_nat :: "string \<Rightarrow> (nat \<times> string) option" where
  "scan_nat s =
     (case s of
        [] \<Rightarrow> None
      | c # cs \<Rightarrow>
          if \<not> is_digit c then None
          else if c = CHR ''0'' then Some (0, cs)
          else Some (digits_value (takeWhile is_digit s), dropWhile is_digit s))"

definition is_float_mark :: "string \<Rightarrow> bool" where
  "is_float_mark s = (case s of [] \<Rightarrow> False | c # cs \<Rightarrow> c = CHR ''.'' \<or> c = CHR ''e'' \<or> c = CHR ''E'')"

definition scan_int :: "string \<Rightarrow> (pyval \<times> string) option" where
  "scan_int s =
     (case s of
        [] \<Rightarrow> None
      | c # cs \<Rightarrow>
          (case (if c = CHR ''-'' then map_option (apfst (\<lambda>n. - int n)) (scan_nat cs)
                 else map_option (apfst int) (scan_nat s)) of
             None \<Rightarrow> None
           | Some (i, r) \<Rightarrow> if is_float_mark r then None else Some (PInt i, r)))"

fun dict_set :: "(string \<times> pyval) list \<Rightarrow> string \<Rightarrow> pyval \<Rightarrow> (string \<times> pyval) list" where
  "dict_set [] k v = [(k, v)]"
| "dict_set ((k', v') # kvs) k v = (if k' = k then (k, v) # kvs else (k', v') # dict_set kvs k v)"

fun scan_value :: "nat \<Rightarrow> string \<Rightarrow> (pyval \<times> string) option"
  and scan_elems :: "nat \<Rightarrow> pyval list \<Rightarrow> string \<Rightarrow> (pyval \<times> string) option"
  and scan_members :: "nat \<Rightarrow> (string \<times> pyval) list \<Rightarrow> string \<Rightarrow> (pyval \<times> string) option"
where
  "scan_value 0 s = None"
| "scan_value (Suc n) s =
     (case s of
        [] \<Rightarrow> None
      | c # cs \<Rightarrow>
          if c = CHR 0x22 then map_option (apfst PStr) (scan_chars (length s) cs)
          else if c = CHR ''['' then
            (if take 1 (skip_ws cs) = '']'' then Some (PList [], drop 1 (skip_ws cs))
             else scan_elems n [] (skip_ws cs))
          else if c = CHR ''{'' then
            (if take 1 (skip_ws cs) = ''}'' then Some (PDict [], drop 1 (skip_ws cs))
             else scan_members n [] (skip_ws cs))
          else if take 4 s = ''null'' then Some (PNone, drop 4 s)
          else if take 4 s = ''true'' then Some (PBool True, drop 4 s)
          else if take 5 s = ''false'' then Some (PBool False, drop 5 s)
          else scan_int s)"
| "scan_elems 0 acc s = None"
| "scan_elems (Suc n) acc s =
     (case scan_value n s of
        None \<Rightarrow> None
      | Some (v, r) \<Rightarrow>
          (case skip_ws r of
             [] \<Rightarrow> None
           | c # r' \<Rightarrow>
               if c = CHR '','' then scan_elems n (acc @ [v]) (skip_ws r')
               else if c = CHR '']'' then Some (PList (acc @ [v]), r')
               else None))"
| "scan_members 0 acc s = None"
| "scan_members (Suc n) acc s =
     (case s of
        [] \<Rightarrow> None
      | q # s' \<Rightarrow>
          if q \<noteq> CHR 0x22 then None
          else
            (case scan_chars (length s) s' of
               None \<Rightarrow> None
             | Some (k, r) \<Rightarrow>
                 (case skip_ws r of
                    [] \<Rightarrow> None
                  | c # r' \<Rightarrow>
                      if c \<noteq> CHR '':'' then None
                      else
                        (case scan_value n (skip_ws r') of
                           None \<Rightarrow> None
                         | Some (v, r2) \<Rightarrow>
                             (case skip_ws r2 of
                                [] \<Rightarrow> None
                              | d # r3 \<Rightarrow>
                                  if d = CHR '','' then scan_members n (dict_set acc k v) (skip_ws r3)
                                  else if d = CHR ''}'' then Some (PDict (dict_set acc k v), r3)
                                  else None)))))"

definition parse_json :: "string \<Rightarrow> pyval result" where
  "parse_json s =
     (case scan_value (Suc (length s)) (skip_ws s) of
        None \<Rightarrow> Inl (Exn ''JSONDecodeError'' ''invalid JSON'')
      | Some (v, r) \<Rightarrow>
          if skip_ws r = [] then Inr v else Inl (Exn ''JSONDecodeError'' ''invalid JSON''))"

definition ref_json :: json_lib where
  "ref_json = \<lparr> dumps = (\<lambda>ind v. pretty ind 0 v), loads = parse_json \<rparr>"

section \<open>Effects: the trace of a run\<close>

text \<open>
  The interactive application and the backend service talk to the outside: the backend
  over HTTP (\<^verbatim>\<open>requests.post\<close>), the language model (\<^verbatim>\<open>openai.ChatCompletion.create\<close>),
  the page (\<^verbatim>\<open>st.write\<close>, \<^verbatim>\<open>st.error\<close>, ...). A computation yields the list of the events
  it caused, in order, and its result: a value, or the exception it raised. \<open>Call f\<close>
  marks the entry into the function \<open>f\<close> of \<^verbatim>\<open>app.py\<close>.
\<close>

record chat_request =
  model :: string
  messages :: "(string \<times> string) list"
  temperature :: real
  max_tokens :: nat

datatype event =
    Call string
  | HttpPost string "(string \<times> string) list"
  | ChatCompletion chat_request
  | Ui string string

type_synonym 'a act = "event list \<times> 'a result"

definition act_ret :: "'a \<Rightarrow> 'a act" where
  "act_ret x = ([], Inr x)"

definition act_raise :: "exn \<Rightarrow> 'a act" where
  "act_raise e = ([], Inl e)"

definition act_lift :: "'a result \<Rightarrow> 'a act" where
  "act_lift r = ([], r)"

definition act_emit :: "event \<Rightarrow> unit act" where
  "act_emit ev = ([ev], Inr ())"

text \<open>Sequencing: the second computation runs when the first returns a value; an
  exception skips it.\<close>

definition act_bind :: "'a act \<Rightarrow> ('a \<Rightarrow> 'b act) \<Rightarrow> 'b act" where
  "act_bind m f =
     (case m of
        (t, Inl e) \<Rightarrow> (t, Inl e)
      | (t, Inr x) \<Rightarrow> (case f x of (t', r) \<Rightarrow> (t @ t', r)))"

text \<open>\<^verbatim>\<open>try: m except Exception as e: h(e)\<close>. What \<open>m\<close> did before it raised stays done.\<close>

definition act_try :: "'a act \<Rightarrow> (exn \<Rightarrow> 'a act) \<Rightarrow> 'a act" where
  "act_try m h =
     (case m of
        (t, Inl e) \<Rightarrow> (case h e of (t', r) \<Rightarrow> (t @ t', r))
      | (t, Inr x) \<Rightarrow> (t, Inr x))"

definition called :: "string \<Rightarrow> 'a act \<Rightarrow> 'a act" where
  "called f body = act_bind (act_emit (Call f)) (\<lambda>_. body)"

definition ui :: "string \<Rightarrow> string \<Rightarrow> unit act" where
  "ui widget text = act_emit (Ui widget text)"

subsection \<open>Strings\<close>

definition nl :: string where
  "nl = [CHR 0x0A]"

definition dq :: string where
  "dq = [CHR 0x22]"

text \<open>Truth value of a string, \<^verbatim>\<open>a or b\<close> on strings, \<^verbatim>\<open>s.startswith(p)\<close>, the slice
  \<^verbatim>\<open>s[:stop]\<close> and \<^verbatim>\<open>s.strip()\<close>.\<close>

definition py_truthy :: "string \<Rightarrow> bool" where
  "py_truthy s = (s \<noteq> [])"

definition py_or :: "string \<Rightarrow> string \<Rightarrow> string" where
  "py_or a b = (if py_truthy a then a else b)"

definition py_startswith :: "string \<Rightarrow> string \<Rightarrow> bool" where
  "py_startswith s p = (take (length p) s = p)"

definition py_slice_to :: "int \<Rightarrow> 'a list \<Rightarrow> 'a list" where
  "py_slice_to stop xs =
     (if stop < 0 then take (nat (int (length xs) + stop)) xs else take (nat stop) xs)"

definition is_space :: "char \<Rightarrow> bool" where
  "is_space c =
     (let n = (of_char c :: nat)
      in (9 \<le> n \<and> n \<le> 13) \<or> (28 \<le> n \<and> n \<le> 32) \<or> n = 133 \<or> n = 160)"

definition py_strip :: "string \<Rightarrow> string" where
  "py_strip s = rev (dropWhile is_space (rev (dropWhile is_space s)))"

section \<open>The outside world of a process\<close>

text \<open>
  What a process of the system finds around it: its environment variables (after
  \<^verbatim>\<open>load_dotenv\<close>), which modules an \<^verbatim>\<open>import\<close> finds, the \<^verbatim>\<open>openai\<close> client (whether it
  has the attribute \<^verbatim>\<open>Model\<close>, and what \<^verbatim>\<open>ChatCompletion.create\<close> answers: the contents of
  the choices, or an exception), the detector of \<^verbatim>\<open>langdetect\<close> (with its seed fixed, a
  function of the text), what an HTTP POST returns, and the template of
  \<^verbatim>\<open>utils/prompts.py\<close>.

  The body of an HTTP response is read with \<^verbatim>\<open>resp.json()\<close>: it fails, or it gives a JSON
  object, here with strings as values (the helpers of \<^verbatim>\<open>app.py\<close> are annotated \<^verbatim>\<open>-> str\<close>), or
  another JSON value (\<open>JOther\<close>), which has no method \<^verbatim>\<open>get\<close>.
\<close>

datatype json_body = JObject "(string \<times> string) list" | JOther

record http_response =
  status_code :: nat
  json :: "json_body result"

text \<open>Modelled from the spec: the constant \<^verbatim>\<open>CANNED_REPLY_TEMPLATE\<close> of \<^verbatim>\<open>utils/prompts.py\<close>,
  a file that is not among the sources. The spec (4.1) describes it as one fixed template
  string with placeholders for a customer name and a message excerpt; it is taken here
  in parsed form, literal text and named replacement fields, and its text is a
  parameter.\<close>

datatype part = Lit string | Field string

type_synonym template = "part list"

record env =
  environ :: "string \<rightharpoonup> string"
  importable :: "string \<Rightarrow> bool"
  openai_has_Model :: bool
  openai_create :: "chat_request \<Rightarrow> string list result"
  langdetect_detect :: "string \<Rightarrow> string result"
  requests_post :: "string \<Rightarrow> (string \<times> string) list \<Rightarrow> http_response result"
  CANNED_REPLY_TEMPLATE :: template

definition getenv_default :: "env \<Rightarrow> string \<Rightarrow> string \<Rightarrow> string" where
  "getenv_default env k d = (case environ env k of None \<Rightarrow> d | Some v \<Rightarrow> v)"

definition py_import :: "env \<Rightarrow> string \<Rightarrow> unit act" where
  "py_import env m =
     (if importable env m then act_ret () else act_raise (Exn ''ImportError'' m))"

text \<open>\<^verbatim>\<open>openai.ChatCompletion.create(...)\<close> followed by
  \<^verbatim>\<open>resp.choices[0].message.content.strip()\<close>.\<close>

definition chat_completion_create :: "env \<Rightarrow> chat_request \<Rightarrow> string list act" where
  "chat_completion_create env req = ([ChatCompletion req], openai_create env req)"

definition first_choice_stripped :: "string list \<Rightarrow> string act" where
  "first_choice_stripped choices =
     (case choices of
        [] \<Rightarrow> act_raise (Exn ''IndexError'' ''list index out of range'')
      | c # _ \<Rightarrow> act_ret (py_strip c))"

text \<open>\<^verbatim>\<open>template.format(**kw)\<close>: the fields are looked up from left to right, and the
  first one that \<open>kw\<close> does not have raises \<^verbatim>\<open>KeyError\<close>.\<close>

fun py_format :: "template \<Rightarrow> (string \<times> string) list \<Rightarrow> string result" where
  "py_format [] kw = Inr []"
| "py_format (Lit s # ps) kw = res_bind (py_format ps kw) (\<lambda>r. Inr (s @ r))"
| "py_format (Field k # ps) kw =
     (case map_of kw k of
        None \<Rightarrow> Inl (Exn ''KeyError'' k)
      | Some v \<Rightarrow> res_bind (py_format ps kw) (\<lambda>r. Inr (v @ r)))"

text \<open>An argument with a default value: \<open>None\<close> when the caller leaves it out.\<close>

definition arg_default :: "'a option \<Rightarrow> 'a \<Rightarrow> 'a" where
  "arg_default a d = (case a of None \<Rightarrow> d | Some v \<Rightarrow> v)"

section \<open>The translation engine (backend/translation_engine.py)\<close>

definition engine_OPENAI_API_KEY :: "env \<Rightarrow> string option" where
  "engine_OPENAI_API_KEY env = environ env ''OPENAI_API_KEY''"

text \<open>\<^verbatim>\<open>not OPENAI_API_KEY\<close> holds for \<^verbatim>\<open>None\<close> and for the empty string.\<close>

definition key_missing :: "string option \<Rightarrow> bool" where
  "key_missing k = (case k of None \<Rightarrow> True | Some s \<Rightarrow> \<not> py_truthy s)"

definition translate_local :: "string \<Rightarrow> string" where
  "translate_local text = text"

definition model_name :: "env \<Rightarrow> string" where
  "model_name env = (if openai_has_Model env then ''gpt-4o-mini'' else ''gpt-4o'')"

definition translate_openai :: "env \<Rightarrow> string \<Rightarrow> string act" where
  "translate_openai env text =
     (if key_missing (engine_OPENAI_API_KEY env)
      then act_raise (Exn ''RuntimeError'' ''OpenAI key not configured'')
      else
        act_bind (py_import env ''openai'') (\<lambda>_.
        let prompt =
              ''You are a high quality translator. Translate the text below into clear natural English and output ONLY the translation.''
              @ nl @ nl @ ''Text:'' @ nl @ text @ nl @ nl @ ''Translate into English:''
        in act_bind
             (chat_completion_create env
                \<lparr> model = model_name env,
                  messages = [(''user'', prompt)],
                  temperature = 0.0,
                  max_tokens = 1024 \<rparr>)
             first_choice_stripped))"

section \<open>The reply generator (backend/response_generator.py)\<close>

text \<open>\<^verbatim>\<open>generate_local_reply(translated_text, name="")\<close>, lines 6 to 8.\<close>

definition generate_local_reply :: "template \<Rightarrow> string \<Rightarrow> string option \<Rightarrow> string result" where
  "generate_local_reply tpl translated_text name =
     py_format tpl
       [(''name'', py_or (arg_default name '''') ''Customer''),
        (''excerpt'', py_slice_to 120 translated_text)]"

section \<open>The backend service (backend/server.py)\<close>

text \<open>\<^verbatim>\<open>POST /translate\<close>, lines 19 to 26: the request carries a string \<^verbatim>\<open>text\<close>, the answer is
  the dictionary with the one key \<^verbatim>\<open>translated_text\<close>.\<close>

definition translate :: "env \<Rightarrow> string \<Rightarrow> (string \<times> string) list act" where
  "translate env text =
     act_bind
       (act_try (translate_openai env text) (\<lambda>e. act_ret (translate_local text)))
       (\<lambda>translated. act_ret [(''translated_text'', translated)])"

section \<open>The interactive application (app.py)\<close>

subsection \<open>Configuration, lines 10 and 11\<close>

definition BACKEND_URL :: "env \<Rightarrow> string" where
  "BACKEND_URL env = getenv_default env ''BACKEND_URL'' ''http://localhost:8000''"

definition app_OPENAI_API_KEY :: "env \<Rightarrow> string" where
  "app_OPENAI_API_KEY env = getenv_default env ''OPENAI_API_KEY'' ''''"

subsection \<open>Utility functions, lines 22 to 148\<close>

text \<open>Each function of \<^verbatim>\<open>app.py\<close> records its entry in the trace (\<open>called\<close>). The function
  \<^verbatim>\<open>translate_local\<close> of \<^verbatim>\<open>app.py\<close> is \<open>app_translate_local\<close> here and its
  \<^verbatim>\<open>generate_local_reply\<close> is \<open>app_generate_local_reply\<close>: the names without the prefix are
  the functions of the backend modules.\<close>

definition detect_language_local :: "env \<Rightarrow> string \<Rightarrow> string act" where
  "detect_language_local env text =
     called ''detect_language_local''
       (act_try
          (act_bind (py_import env ''langdetect'') (\<lambda>_.
           act_lift (langdetect_detect env text)))
          (\<lambda>e. act_ret ''unknown''))"

definition http_post :: "env \<Rightarrow> string \<Rightarrow> (string \<times> string) list \<Rightarrow> http_response act" where
  "http_post env url body = ([HttpPost url body], requests_post env url body)"

definition raise_for_status :: "http_response \<Rightarrow> unit act" where
  "raise_for_status resp =
     (if 400 \<le> status_code resp \<and> status_code resp < 600
      then act_raise (Exn ''HTTPError'' ''error status'')
      else act_ret ())"

text \<open>\<^verbatim>\<open>data.get(key, default)\<close>.\<close>

definition body_get :: "json_body \<Rightarrow> string \<Rightarrow> string \<Rightarrow> string act" where
  "body_get data k d =
     (case data of
        JObject kvs \<Rightarrow> act_ret (case map_of kvs k of None \<Rightarrow> d | Some v \<Rightarrow> v)
      | JOther \<Rightarrow> act_raise (Exn ''AttributeError'' ''object has no attribute get''))"

definition call_remote_translate :: "env \<Rightarrow> string \<Rightarrow> string act" where
  "call_remote_translate env text =
     called ''call_remote_translate''
       (act_try
          (act_bind (http_post env (BACKEND_URL env @ ''/translate'') [(''text'', text)]) (\<lambda>resp.
           act_bind (raise_for_status resp) (\<lambda>_.
           act_bind (act_lift (json resp)) (\<lambda>data.
           body_get data ''translated_text'' ''''))))
          (\<lambda>e. act_raise (Exn ''RuntimeError'' (''Remote translation failed: '' @ exn_msg e))))"

definition call_remote_response :: "env \<Rightarrow> string \<Rightarrow> string option \<Rightarrow> string act" where
  "call_remote_response env translated_text name =
     called ''call_remote_response''
       (act_try
          (act_bind
             (http_post env (BACKEND_URL env @ ''/response'')
                [(''translated_text'', translated_text), (''name'', arg_default name '''')]) (\<lambda>resp.
           act_bind (raise_for_status resp) (\<lambda>_.
           act_bind (act_lift (json resp)) (\<lambda>data.
           body_get data ''reply'' ''''))))
          (\<lambda>e. act_raise (Exn ''RuntimeError'' (''Remote response generation failed: '' @ exn_msg e))))"

definition app_translate_local :: "env \<Rightarrow> string \<Rightarrow> string act" where
  "app_translate_local env text =
     called ''translate_local''
       (act_try
          (act_bind (py_import env ''backend.translation_engine'') (\<lambda>_.
           act_ret (translate_local text)))
          (\<lambda>e. act_ret text))"

definition app_generate_local_reply :: "env \<Rightarrow> string \<Rightarrow> string option \<Rightarrow> string act" where
  "app_generate_local_reply env translated_text name =
     called ''generate_local_reply''
       (act_try
          (act_bind (py_import env ''backend.response_generator'') (\<lambda>_.
           act_lift (generate_local_reply (CANNED_REPLY_TEMPLATE env) translated_text
                       (Some (arg_default name '''')))))
          (\<lambda>e.
             act_try
               (act_bind (py_import env ''utils.prompts'') (\<lambda>_.
                act_lift
                  (py_format (CANNED_REPLY_TEMPLATE env)
                     [(''name'', py_or (arg_default name '''') ''Customer''),
                      (''excerpt'', py_slice_to 120 translated_text)])))
               (\<lambda>e.
                  let nm = py_or (arg_default name '''') ''Customer''
                  in act_ret
                       (''Hi '' @ nm @ '', thanks for reaching out. We received your message: ''
                        @ dq @ py_slice_to 120 translated_text @ ''...'' @ dq
                        @ '' We'll get back within 24 hours.''))))"

definition translate_with_openai :: "env \<Rightarrow> string \<Rightarrow> string act" where
  "translate_with_openai env text =
     called ''translate_with_openai''
       (if \<not> py_truthy (app_OPENAI_API_KEY env)
        then act_raise (Exn ''RuntimeError'' ''OpenAI API key not configured.'')
        else
          act_try
            (act_bind (py_import env ''openai'') (\<lambda>_.
             let prompt =
                   ''You are a translator. Translate the following text into clear natural English. ''
                   @ ''Output ONLY the translation.'' @ nl @ nl
                   @ ''Text:'' @ nl @ text @ nl @ nl @ ''Translate into English:''
             in act_bind
                  (chat_completion_create env
                     \<lparr> model = model_name env,
                       messages = [(''user'', prompt)],
                       temperature = 0.0,
                       max_tokens = 1024 \<rparr>)
                  first_choice_stripped))
            (\<lambda>e. act_raise (Exn ''RuntimeError'' (''OpenAI translation failed: '' @ exn_msg e))))"

definition generate_reply_with_openai :: "env \<Rightarrow> string \<Rightarrow> string option \<Rightarrow> real option \<Rightarrow> string act" where
  "generate_reply_with_openai env translated_text name temp =
     called ''generate_reply_with_openai''
       (if \<not> py_truthy (app_OPENAI_API_KEY env)
        then act_raise (Exn ''RuntimeError'' ''OpenAI API key not configured.'')
        else
          act_try
            (act_bind (py_import env ''openai'') (\<lambda>_.
             let prompt =
                   ''You are an empathetic customer support agent. Using the message below, write a concise, polite reply ''
                   @ ''(3-6 sentences). Ask clarifying questions if needed and suggest next steps.'' @ nl @ nl
                   @ ''Customer message:'' @ nl @ translated_text @ nl @ nl @ ''Reply:''
             in act_bind
                  (chat_completion_create env
                     \<lparr> model = model_name env,
                       messages = [(''user'', prompt)],
                       temperature = arg_default temp 0.2,
                       max_tokens = 256 \<rparr>)
                  first_choice_stripped))
            (\<lambda>e. act_raise (Exn ''RuntimeError'' (''OpenAI response generation failed: '' @ exn_msg e))))"

text \<open>\<^verbatim>\<open>save_evaluation_local\<close>, lines 84 to 102: the store of \<^verbatim>\<open>utils/evaluation.py\<close> when the
  module is there and its call returns, the writer of lines 91 to 102 otherwise. A call
  of \<^verbatim>\<open>save_evaluation\<close> that raises has written nothing.\<close>

definition save_evaluation_local :: "env \<Rightarrow> json_lib \<Rightarrow> fs \<Rightarrow> pyval \<Rightarrow> fs act" where
  "save_evaluation_local env J files entry =
     called ''save_evaluation_local''
       (act_try
          (act_bind (py_import env ''utils.evaluation'') (\<lambda>_.
           act_lift (save_evaluation J files entry)))
          (\<lambda>e. act_lift (save_evaluation_fallback J files entry)))"

subsection \<open>The page, lines 152 to 283\<close>

text \<open>The operator's settings (the sidebar, lines 153 to 156) and the widgets of the page:
  the form (lines 168 to 172) and the evaluation controls (lines 268 to 270).\<close>

record settings =
  backend_choice :: string
  translation_backend :: string
  response_mode :: string
  ai_temperature :: real

record widgets =
  customer_name :: string
  incoming_text :: string
  want_generate :: bool
  submit_btn :: bool
  rating :: int
  comments :: string
  save_btn :: bool

text \<open>The variables of the script that the run leaves behind.\<close>

record outcome =
  translated :: string
  suggested :: string
  detected_lang :: string

text \<open>Lines 190 to 217: the translated text and the recorded error message. An exception
  that reaches the outer handler resets the text to the empty string.\<close>

definition resolve_translation :: "env \<Rightarrow> settings \<Rightarrow> string \<Rightarrow> (string \<times> string option) act" where
  "resolve_translation env st text =
     act_try
       (if py_startswith (backend_choice st) ''remote'' then
          act_try
            (act_bind (call_remote_translate env text) (\<lambda>t. act_ret (t, None)))
            (\<lambda>e_remote.
               let translate_error = Some (''Remote translation failed: '' @ exn_msg e_remote) in
               if translation_backend st = ''openai'' \<and> py_truthy (app_OPENAI_API_KEY env) then
                 act_bind (translate_with_openai env text) (\<lambda>t. act_ret (t, translate_error))
               else if translation_backend st = ''local'' then
                 act_bind (app_translate_local env text) (\<lambda>t. act_ret (t, translate_error))
               else if py_truthy (app_OPENAI_API_KEY env) then
                 act_bind (translate_with_openai env text) (\<lambda>t. act_ret (t, translate_error))
               else
                 act_bind (app_translate_local env text) (\<lambda>t. act_ret (t, translate_error)))
        else if translation_backend st = ''openai'' \<and> py_truthy (app_OPENAI_API_KEY env) then
          act_bind (translate_with_openai env text) (\<lambda>t. act_ret (t, None))
        else
          act_bind (app_translate_local env text) (\<lambda>t. act_ret (t, None)))
       (\<lambda>e. act_ret ('''', Some (exn_msg e)))"

text \<open>Lines 228 to 252: the suggested reply and the recorded error message.\<close>

definition generate_suggestion ::
  "env \<Rightarrow> settings \<Rightarrow> string \<Rightarrow> string \<Rightarrow> (string \<times> string option) act" where
  "generate_suggestion env st translated_text name =
     act_try
       (act_bind
          (if py_startswith (response_mode st) ''AI''
              \<or> response_mode st = ''AI-generated (if available)'' then
             (if py_startswith (backend_choice st) ''remote'' then
                act_try
                  (call_remote_response env translated_text (Some name))
                  (\<lambda>e.
                     if py_truthy (app_OPENAI_API_KEY env) then
                       generate_reply_with_openai env translated_text (Some name)
                         (Some (ai_temperature st))
                     else app_generate_local_reply env translated_text (Some name))
              else if translation_backend st = ''openai'' \<and> py_truthy (app_OPENAI_API_KEY env) then
                generate_reply_with_openai env translated_text (Some name)
                  (Some (ai_temperature st))
              else app_generate_local_reply env translated_text (Some name))
           else app_generate_local_reply env translated_text (Some name))
          (\<lambda>s. act_ret (s, None)))
       (\<lambda>e. act_ret ('''', Some (exn_msg e)))"

definition error_truthy :: "string option \<Rightarrow> bool" where
  "error_truthy m = (case m of None \<Rightarrow> False | Some s \<Rightarrow> py_truthy s)"

text \<open>Lines 222 to 263: what the page does with the translated text.\<close>

definition show_translation :: "env \<Rightarrow> settings \<Rightarrow> widgets \<Rightarrow> string \<Rightarrow> string act" where
  "show_translation env st w translated_text =
     (if py_truthy translated_text then
        act_bind (ui ''markdown'' ''### Translated to English'') (\<lambda>_.
        act_bind (ui ''success'' translated_text) (\<lambda>_.
        if want_generate w then
          act_bind (generate_suggestion env st translated_text (customer_name w)) (\<lambda>(s, gen_error).
          act_bind (if error_truthy gen_error then ui ''error'' (arg_default gen_error '''')
                    else act_ret ()) (\<lambda>_.
          act_bind (if py_truthy s then
                      act_bind (ui ''markdown'' ''### Suggested Reply'') (\<lambda>_. ui ''info'' s)
                    else ui ''warning'' ''No suggested reply produced.'') (\<lambda>_.
          act_ret s)))
        else act_ret ''''))
      else
        act_bind (ui ''warning'' ''No translation was produced.'') (\<lambda>_. act_ret ''''))"

text \<open>The dictionary of lines 271 to 278.\<close>

definition evaluation_entry :: "widgets \<Rightarrow> outcome \<Rightarrow> pyval" where
  "evaluation_entry w out =
     PDict [(''input'', PStr (incoming_text w)),
            (''detected_language'', PStr (detected_lang out)),
            (''translated'', PStr (translated out)),
            (''suggested'', PStr (suggested out)),
            (''rating'', PInt (rating w)),
            (''comments'', PStr (comments w))]"

text \<open>Lines 266 to 283: the evaluation controls.\<close>

definition evaluation_block :: "env \<Rightarrow> json_lib \<Rightarrow> fs \<Rightarrow> widgets \<Rightarrow> outcome \<Rightarrow> fs act" where
  "evaluation_block env J files w out =
     act_bind (ui ''markdown'' ''---'') (\<lambda>_.
     act_bind (ui ''subheader'' ''Quick Evaluation'') (\<lambda>_.
     if save_btn w then
       act_try
         (act_bind (save_evaluation_local env J files (evaluation_entry w out)) (\<lambda>files'.
          act_bind (ui ''success'' ''Evaluation saved.'') (\<lambda>_.
          act_ret files')))
         (\<lambda>e.
            act_bind (ui ''error'' (''Failed to save evaluation: '' @ exn_msg e)) (\<lambda>_.
            act_ret files))
     else act_ret files))"

text \<open>Lines 175 to 283: one run of the script over the submitted form. It returns the
  variables \<^verbatim>\<open>translated\<close>, \<^verbatim>\<open>suggested\<close> and \<^verbatim>\<open>detected_lang\<close> and the files.\<close>

definition on_submit ::
  "env \<Rightarrow> json_lib \<Rightarrow> fs \<Rightarrow> settings \<Rightarrow> widgets \<Rightarrow> (outcome \<times> fs) act" where
  "on_submit env J files st w =
     (let initial = \<lparr> translated = '''', suggested = '''', detected_lang = ''unknown'' \<rparr> in
      if submit_btn w then
        if \<not> py_truthy (py_strip (incoming_text w)) then
          act_bind (ui ''warning'' ''Please paste a message to translate.'') (\<lambda>_.
          act_ret (initial, files))
        else
          act_bind (ui ''markdown'' ''### Processing'') (\<lambda>_.
          act_bind (detect_language_local env (incoming_text w)) (\<lambda>lang.
          act_bind (ui ''write'' (''**Detected language code:** `'' @ lang @ ''`'')) (\<lambda>_.
          act_bind (resolve_translation env st (incoming_text w)) (\<lambda>(t, translate_error).
          act_bind (if error_truthy translate_error
                    then ui ''error'' (arg_default translate_error '''')
                    else act_ret ()) (\<lambda>_.
          act_bind (show_translation env st w t) (\<lambda>s.
          let out = \<lparr> translated = t, suggested = s, detected_lang = lang \<rparr> in
          act_bind (evaluation_block env J files w out) (\<lambda>files'.
          act_ret (out, files'))))))))
      else act_ret (initial, files))"

section \<open>Predicates on traces and templates\<close>

text \<open>The three translation strategies and the three reply strategies of \<^verbatim>\<open>app.py\<close>: the
  backend service, the language model, the local fallback.\<close>

definition is_translate_call :: "event \<Rightarrow> bool" where
  "is_translate_call ev =
     (ev = Call ''call_remote_translate'' \<or> ev = Call ''translate_with_openai''
      \<or> ev = Call ''translate_local'')"

definition is_reply_call :: "event \<Rightarrow> bool" where
  "is_reply_call ev =
     (ev = Call ''call_remote_response'' \<or> ev = Call ''generate_reply_with_openai''
      \<or> ev = Call ''generate_local_reply'')"

definition no_reply_call :: "event list \<Rightarrow> bool" where
  "no_reply_call tr = list_all (\<lambda>ev. \<not> is_reply_call ev) tr"

definition no_translate_call :: "event list \<Rightarrow> bool" where
  "no_translate_call tr = list_all (\<lambda>ev. \<not> is_translate_call ev) tr"

text \<open>The requests that a trace sent to the language model.\<close>

fun chat_requests :: "event list \<Rightarrow> chat_request list" where
  "chat_requests [] = []"
| "chat_requests (ChatCompletion req # tr) = req # chat_requests tr"
| "chat_requests (ev # tr) = chat_requests tr"

text \<open>The translation request as the spec words it (4.3): the fixed instruction prompt,
  embedding the input text, in exactly one message of the role \<^verbatim>\<open>user\<close>, with temperature
  0.0 and at most 1024 output tokens.\<close>

definition spec_instruction :: string where
  "spec_instruction =
     ''You are a translator. Translate the following text into clear natural English. Output ONLY the translation.''"

definition is_translation_request :: "string \<Rightarrow> string \<Rightarrow> chat_request \<Rightarrow> bool" where
  "is_translation_request instruction text req =
     ((case messages req of
         [(role, content)] \<Rightarrow>
           role = ''user'' \<and> prefix instruction content \<and> sublist text content
       | _ \<Rightarrow> False)
      \<and> temperature req = 0 \<and> max_tokens req = 1024)"

text \<open>The instruction prompt that \<^verbatim>\<open>translate_openai\<close> of the translation engine holds.\<close>

definition engine_instruction :: string where
  "engine_instruction =
     ''You are a high quality translator. Translate the text below into clear natural English and output ONLY the translation.''"

text \<open>Filling a template as the spec words it (4.1): the name goes into the name
  placeholder, the excerpt into the excerpt placeholder.\<close>

fun fill_template :: "template \<Rightarrow> string \<Rightarrow> string \<Rightarrow> string" where
  "fill_template [] nm ex = []"
| "fill_template (Lit s # ps) nm ex = s @ fill_template ps nm ex"
| "fill_template (Field k # ps) nm ex =
     (if k = ''name'' then nm else if k = ''excerpt'' then ex else []) @ fill_template ps nm ex"

fun template_fields :: "template \<Rightarrow> string list" where
  "template_fields [] = []"
| "template_fields (Lit s # ps) = template_fields ps"
| "template_fields (Field k # ps) = k # template_fields ps"

definition well_formed :: "template \<Rightarrow> bool" where
  "well_formed tpl = list_all (\<lambda>k. k = ''name'' \<or> k = ''excerpt'') (template_fields tpl)"

text \<open>The name that a reply greets, and the excerpt it quotes, as the spec words them:
  the literal \<^verbatim>\<open>Customer\<close> for an empty or absent name, the first 120 characters of the text.\<close>

definition reply_name :: "string option \<Rightarrow> string" where
  "reply_name name = (if name = None \<or> name = Some '''' then ''Customer'' else the name)"

definition reply_excerpt :: "string \<Rightarrow> string" where
  "reply_excerpt text = take 120 text"

text \<open>The last-resort template of \<^verbatim>\<open>app.py\<close> (line 82), in parsed form.\<close>

definition LAST_RESORT_TEMPLATE :: template where
  "LAST_RESORT_TEMPLATE =
     [Lit ''Hi '', Field ''name'',
      Lit ('', thanks for reaching out. We received your message: '' @ dq),
      Field ''excerpt'',
      Lit (''...'' @ dq @ '' We'll get back within 24 hours.'')]"

text \<open>A trace sends the translation request when the one request it sent to the language
  model is a translation request.\<close>

definition sends_translation_request :: "string \<Rightarrow> string \<Rightarrow> event list \<Rightarrow> bool" where
  "sends_translation_request instruction text tr =
     (case chat_requests tr of
        [req] \<Rightarrow> is_translation_request instruction text req
      | _ \<Rightarrow> False)"

text \<open>Translation precedes reply generation: wherever the trace enters a reply strategy,
  a translation strategy was entered before (\<open>seen\<close>) and none is entered afterwards.\<close>

fun replies_after_translation :: "bool \<Rightarrow> event list \<Rightarrow> bool" where
  "replies_after_translation seen [] = True"
| "replies_after_translation seen (ev # tr) =
     ((if is_reply_call ev then seen \<and> no_translate_call tr else True)
      \<and> replies_after_translation (seen \<or> is_translate_call ev) tr)"

definition translation_first :: "event list \<Rightarrow> bool" where
  "translation_first tr = replies_after_translation False tr"

section \<open>Concrete environments\<close>

text \<open>A template with the two placeholders.\<close>

definition sample_template :: template where
  "sample_template =
     [Lit ''Hello '', Field ''name'', Lit '', thank you for your message: '', Field ''excerpt'',
      Lit '' - our team will reply shortly.'']"

text \<open>A process with no key for the language model, no reachable backend, and every
  module in place; the detector fails on a blank text.\<close>

definition env_offline :: env where
  "env_offline =
     \<lparr> environ = Map.empty,
       importable = (\<lambda>m. True),
       openai_has_Model = False,
       openai_create = (\<lambda>req. Inl (Exn ''AuthenticationError'' ''No API key provided.'')),
       langdetect_detect =
         (\<lambda>t. if py_strip t = [] then Inl (Exn ''LangDetectException'' ''No features in text.'')
              else Inr ''fr''),
       requests_post = (\<lambda>url body. Inl (Exn ''ConnectionError'' ''Connection refused'')),
       CANNED_REPLY_TEMPLATE = sample_template \<rparr>"

text \<open>A process with a key, a language model that answers, and a backend that answers
  every request with status 200 and an empty JSON object.\<close>

definition env_online :: env where
  "env_online =
     \<lparr> environ = [''OPENAI_API_KEY'' \<mapsto> ''sk-test''],
       importable = (\<lambda>m. True),
       openai_has_Model = True,
       openai_create = (\<lambda>req. Inr ['' I would like to cancel my order. '']),
       langdetect_detect = (\<lambda>t. Inr ''fr''),
       requests_post = (\<lambda>url body. Inr \<lparr> status_code = 200, json = Inr (JObject []) \<rparr>),
       CANNED_REPLY_TEMPLATE = sample_template \<rparr>"

definition settings_local :: settings where
  "settings_local =
     \<lparr> backend_choice = ''local'', translation_backend = ''local'',
       response_mode = ''Canned (template)'', ai_temperature = 0.2 \<rparr>"

definition settings_remote :: settings where
  "settings_remote =
     \<lparr> backend_choice = ''remote (FastAPI)'', translation_backend = ''auto'',
       response_mode = ''AI-generated (if available)'', ai_temperature = 0.2 \<rparr>"

definition sample_widgets :: widgets where
  "sample_widgets =
     \<lparr> customer_name = '''', incoming_text = ''Bonjour, je voudrais annuler ma commande.'',
       want_generate = True, submit_btn = True, rating = 4, comments = '''', save_btn = False \<rparr>"

text \<open>Two evaluation entries as the interactive application assembles them (lines 271 to 278).\<close>

definition entry1 :: pyval where
  "entry1 = PDict [(''input'', PStr ''Hola''), (''detected_language'', PStr ''es''),
     (''translated'', PStr ''Hola''), (''suggested'', PStr ''''), (''rating'', PInt 4),
     (''comments'', PStr '''')]"

definition entry2 :: pyval where
  "entry2 = PDict [(''input'', PStr ''Bonjour''), (''detected_language'', PStr ''fr''),
     (''translated'', PStr ''Bonjour''), (''suggested'', PStr ''Hi''), (''rating'', PInt 5),
     (''comments'', PStr ''ok'')]"

section \<open>Properties of the evaluation store\<close>

lemma save_evaluation_missing:
  "files DATA_FILE = None \<Longrightarrow>
   save_evaluation J files e = Inr (files(DATA_FILE \<mapsto> dumps J 2 (PList [e])))"
  by (simp add: save_evaluation_def path_exists_def py_append_def res_bind_def write_text_def)

lemma save_evaluation_history:
  "files DATA_FILE = Some (dumps J 2 (PList xs)) \<Longrightarrow> json_roundtrip J (PList xs) \<Longrightarrow>
   save_evaluation J files e = Inr (files(DATA_FILE \<mapsto> dumps J 2 (PList (xs @ [e]))))"
  by (simp add: save_evaluation_def path_exists_def read_text_def py_append_def res_bind_def
      write_text_def json_roundtrip_def)

lemma save_all_appends:
  "files DATA_FILE = Some (dumps J 2 (PList xs)) \<Longrightarrow>
   (\<forall>k<length es. json_roundtrip J (PList (xs @ take k es))) \<Longrightarrow>
   save_all J files es = Inr (files(DATA_FILE \<mapsto> dumps J 2 (PList (xs @ es))))"
proof (induction es arbitrary: files xs)
  case Nil
  then show ?case by (simp add: fun_upd_idem)
next
  case (Cons e es)
  from Cons.prems(2) have rt: "json_roundtrip J (PList xs)" by force
  have step: "save_evaluation J files e = Inr (files(DATA_FILE \<mapsto> dumps J 2 (PList (xs @ [e]))))"
    using Cons.prems(1) rt by (rule save_evaluation_history)
  have later: "\<forall>k<length es. json_roundtrip J (PList ((xs @ [e]) @ take k es))"
  proof (intro allI impI)
    fix k assume "k < length es"
    then have "Suc k < length (e # es)" by simp
    with Cons.prems(2) have "json_roundtrip J (PList (xs @ take (Suc k) (e # es)))" by blast
    then show "json_roundtrip J (PList ((xs @ [e]) @ take k es))" by simp
  qed
  have "save_all J (files(DATA_FILE \<mapsto> dumps J 2 (PList (xs @ [e])))) es =
        Inr ((files(DATA_FILE \<mapsto> dumps J 2 (PList (xs @ [e]))))(DATA_FILE \<mapsto> dumps J 2 (PList ((xs @ [e]) @ es))))"
    using later by (intro Cons.IH) simp_all
  then have "save_all J (files(DATA_FILE \<mapsto> dumps J 2 (PList (xs @ [e])))) es =
        Inr (files(DATA_FILE \<mapsto> dumps J 2 (PList (xs @ e # es))))"
    by simp
  with step show ?case by (simp only: save_all.simps res_bind_def sum.case)
qed

text \<open>
  Claim C1. Starting from a store whose backing file does not exist, saving the entries
  \<open>es\<close> one after the other with \<^verbatim>\<open>save_evaluation\<close> succeeds, and \<^verbatim>\<open>load_evaluations\<close>
  then returns exactly the list \<open>es\<close>, in insertion order; for \<open>es = [e]\<close> this is the
  one-element history \<open>[e]\<close>. The \<^verbatim>\<open>json\<close> module is asked to read back the histories the
  store wrote (the non-empty prefixes of \<open>es\<close>) as themselves.
\<close>

theorem save_then_load_roundtrip:
  assumes fresh: "files DATA_FILE = None"
      and rt: "\<forall>k\<in>{1..length es}. json_roundtrip J (PList (take k es))"
  shows "\<exists>files'. save_all J files es = Inr files' \<and> load_evaluations J files' = Inr (PList es)"
proof (cases es)
  case Nil
  with fresh show ?thesis by (simp add: load_evaluations_def path_exists_def)
next
  case (Cons e rest)
  let ?f1 = "files(DATA_FILE \<mapsto> dumps J 2 (PList [e]))"
  have first: "save_evaluation J files e = Inr ?f1"
    using fresh by (rule save_evaluation_missing)
  have later: "\<forall>k<length rest. json_roundtrip J (PList ([e] @ take k rest))"
  proof (intro allI impI)
    fix k assume "k < length rest"
    then have "Suc k \<in> {1..length es}" using Cons by simp
    with rt have "json_roundtrip J (PList (take (Suc k) es))" by blast
    then show "json_roundtrip J (PList ([e] @ take k rest))" using Cons by simp
  qed
  have rest: "save_all J ?f1 rest = Inr (?f1(DATA_FILE \<mapsto> dumps J 2 (PList ([e] @ rest))))"
    using later by (intro save_all_appends) simp_all
  have "length es \<in> {1..length es}" using Cons by simp
  with rt have whole: "json_roundtrip J (PList es)" by fastforce
  have saved: "save_all J files es = Inr (?f1(DATA_FILE \<mapsto> dumps J 2 (PList es)))"
    using first rest Cons by (simp add: res_bind_def)
  moreover have "load_evaluations J (?f1(DATA_FILE \<mapsto> dumps J 2 (PList es))) = Inr (PList es)"
    using whole by (simp add: load_evaluations_def path_exists_def read_text_def res_bind_def json_roundtrip_def)
  ultimately show ?thesis by blast
qed

lemma roundtrip_entry1: "json_roundtrip ref_json (PList [entry1])" by code_simp
lemma roundtrip_entry12: "json_roundtrip ref_json (PList [entry1, entry2])" by code_simp

theorem save_then_load_roundtrip_witness:
  "(\<exists>files'. save_all ref_json Map.empty [entry1] = Inr files'
      \<and> load_evaluations ref_json files' = Inr (PList [entry1]))
   \<and> (\<exists>files'. save_all ref_json Map.empty [entry1, entry2] = Inr files'
      \<and> load_evaluations ref_json files' = Inr (PList [entry1, entry2]))"
proof
  have "\<forall>k\<in>{1..length [entry1]}. json_roundtrip ref_json (PList (take k [entry1]))"
    using roundtrip_entry1 by simp
  then show "\<exists>files'. save_all ref_json Map.empty [entry1] = Inr files'
      \<and> load_evaluations ref_json files' = Inr (PList [entry1])"
    by (intro save_then_load_roundtrip) simp_all
next
  have "\<forall>k\<in>{1..length [entry1, entry2]}. json_roundtrip ref_json (PList (take k [entry1, entry2]))"
  proof
    fix k assume "k \<in> {1..length [entry1, entry2]}"
    then have "k = 1 \<or> k = 2" by auto
    then show "json_roundtrip ref_json (PList (take k [entry1, entry2]))"
      using roundtrip_entry1 roundtrip_entry12 by auto
  qed
  then show "\<exists>files'. save_all ref_json Map.empty [entry1, entry2] = Inr files'
      \<and> load_evaluations ref_json files' = Inr (PList [entry1, entry2])"
    by (intro save_then_load_roundtrip) simp_all
qed

lemma save_evaluation_outcome:
  "save_evaluation J (files(DATA_FILE := c)) entry =
     map_sum id (\<lambda>d. files(DATA_FILE \<mapsto> dumps J 2 d))
       (py_append (case c of None \<Rightarrow> PList []
                   | Some t \<Rightarrow> (case loads J t of Inl e \<Rightarrow> PList [] | Inr v \<Rightarrow> v)) entry)"
  by (cases c)
    (simp_all add: save_evaluation_def path_exists_def read_text_def res_bind_def write_text_def
      split: sum.splits)

lemma save_evaluation_fallback_outcome:
  "save_evaluation_fallback J (files(LOCAL_FILE := c)) entry =
     map_sum id (\<lambda>d. files(LOCAL_FILE \<mapsto> dumps J 2 d))
       (py_append (case c of None \<Rightarrow> PList []
                   | Some t \<Rightarrow> (case loads J t of Inl e \<Rightarrow> PList [] | Inr v \<Rightarrow> v)) entry)"
  by (cases c)
    (simp_all add: save_evaluation_fallback_def path_exists_def read_text_def res_bind_def
      write_text_def split: sum.splits)

text \<open>
  Claim C9. For every prior state \<open>c\<close> of the backing file (missing, empty, corrupt, a
  valid list of entries, or any other text) and every entry, \<^verbatim>\<open>save_evaluation\<close> and the
  fallback writer of the interactive application have the same outcome \<open>r\<close>: either both
  raise the same exception, or both write the same text, the one to
  \<^verbatim>\<open>data/evaluations.json\<close> and the other to \<^verbatim>\<open>data/evaluations_local.json\<close>, and leave
  every other file as it was.
\<close>

theorem save_evaluation_fallback_same_content:
  "\<exists>r. save_evaluation J (files(DATA_FILE := c)) entry = map_sum id (\<lambda>t. files(DATA_FILE \<mapsto> t)) r
     \<and> save_evaluation_fallback J (files'(LOCAL_FILE := c)) entry = map_sum id (\<lambda>t. files'(LOCAL_FILE \<mapsto> t)) r"
proof -
  define prior where
    "prior = (case c of None \<Rightarrow> PList []
              | Some t \<Rightarrow> (case loads J t of Inl e \<Rightarrow> PList [] | Inr v \<Rightarrow> v))"
  let ?r = "map_sum id (dumps J 2) (py_append prior entry)"
  have "save_evaluation J (files(DATA_FILE := c)) entry = map_sum id (\<lambda>t. files(DATA_FILE \<mapsto> t)) ?r"
    unfolding save_evaluation_outcome prior_def by (simp add: sum.map_comp comp_def id_def)
  moreover have "save_evaluation_fallback J (files'(LOCAL_FILE := c)) entry =
      map_sum id (\<lambda>t. files'(LOCAL_FILE \<mapsto> t)) ?r"
    unfolding save_evaluation_fallback_outcome prior_def by (simp add: sum.map_comp comp_def id_def)
  ultimately show ?thesis by blast
qed

theorem save_evaluation_fallback_same_content_witness:
  "\<exists>r. save_evaluation ref_json (Map.empty(DATA_FILE := Some ''{not json'')) (PDict [(''rating'', PInt 4)])
         = map_sum id (\<lambda>t. Map.empty(DATA_FILE \<mapsto> t)) r
     \<and> save_evaluation_fallback ref_json (Map.empty(LOCAL_FILE := Some ''{not json'')) (PDict [(''rating'', PInt 4)])
         = map_sum id (\<lambda>t. Map.empty(LOCAL_FILE \<mapsto> t)) r"
  by (rule save_evaluation_fallback_same_content)

text \<open>
  Claim C2. On a backing file whose text the \<^verbatim>\<open>json\<close> module rejects, the two read paths
  of the store differ: \<^verbatim>\<open>save_evaluation\<close> swallows the parse error and writes the
  one-entry history, while \<^verbatim>\<open>load_evaluations\<close> has no handler and raises the parse
  error instead of returning the empty list.
\<close>

theorem load_evaluations_malformed_raises:
  assumes "loads J t = Inl e"
  shows "load_evaluations J (files(DATA_FILE \<mapsto> t)) = Inl e
       \<and> save_evaluation J (files(DATA_FILE \<mapsto> t)) entry
           = Inr (files(DATA_FILE \<mapsto> dumps J 2 (PList [entry])))"
  using assms
  by (simp add: load_evaluations_def save_evaluation_def path_exists_def read_text_def
      res_bind_def py_append_def write_text_def)

lemma parse_json_not_json:
  "loads ref_json ''{not json'' = Inl (Exn ''JSONDecodeError'' ''invalid JSON'')"
  by code_simp

theorem load_evaluations_malformed_raises_witness:
  "load_evaluations ref_json (Map.empty(DATA_FILE \<mapsto> ''{not json''))
     = Inl (Exn ''JSONDecodeError'' ''invalid JSON'')
   \<and> save_evaluation ref_json (Map.empty(DATA_FILE \<mapsto> ''{not json'')) (PDict [(''rating'', PInt 4)])
     = Inr (Map.empty(DATA_FILE \<mapsto> dumps ref_json 2 (PList [PDict [(''rating'', PInt 4)]])))"
  by (rule load_evaluations_malformed_raises [OF parse_json_not_json])

section \<open>Traces and results of the combinators\<close>

lemma fst_act_bind:
  "fst (act_bind m f) = fst m @ (case snd m of Inl e \<Rightarrow> [] | Inr x \<Rightarrow> fst (f x))"
  by (cases m) (auto simp: act_bind_def split: sum.splits prod.splits)

lemma snd_act_bind:
  "snd (act_bind m f) = (case snd m of Inl e \<Rightarrow> Inl e | Inr x \<Rightarrow> snd (f x))"
  by (cases m) (auto simp: act_bind_def split: sum.splits prod.splits)

lemma fst_act_try:
  "fst (act_try m h) = fst m @ (case snd m of Inl e \<Rightarrow> fst (h e) | Inr x \<Rightarrow> [])"
  by (cases m) (auto simp: act_try_def split: sum.splits prod.splits)

lemma snd_act_try:
  "snd (act_try m h) = (case snd m of Inl e \<Rightarrow> snd (h e) | Inr x \<Rightarrow> Inr x)"
  by (cases m) (auto simp: act_try_def split: sum.splits prod.splits)

lemma act_basic [simp]:
  "fst (act_ret x) = []" "snd (act_ret x) = Inr x"
  "fst (act_raise e) = []" "snd (act_raise e) = Inl e"
  "fst (act_lift r) = []" "snd (act_lift r) = r"
  "fst (act_emit ev) = [ev]" "snd (act_emit ev) = Inr ()"
  "fst (ui wd t) = [Ui wd t]" "snd (ui wd t) = Inr ()"
  by (simp_all add: act_ret_def act_raise_def act_lift_def act_emit_def ui_def)

lemma fst_called: "fst (called f body) = Call f # fst body"
  by (simp add: called_def fst_act_bind)

lemma snd_called: "snd (called f body) = snd body"
  by (simp add: called_def snd_act_bind)

lemmas act_simps = fst_act_bind snd_act_bind fst_act_try snd_act_try fst_called snd_called

lemma fst_py_import [simp]: "fst (py_import env m) = []"
  by (simp add: py_import_def)

lemma fst_first_choice_stripped [simp]: "fst (first_choice_stripped cs) = []"
  by (cases cs) (simp_all add: first_choice_stripped_def)

section \<open>Properties of the backend service and the translation engine\<close>

text \<open>
  Claim C3. When no key for the language model is configured (the variable is unset or
  empty), \<^verbatim>\<open>POST /translate\<close> sends nothing to the language model and answers
  \<^verbatim>\<open>{"translated_text": t}\<close> with \<open>t\<close> equal to the input text: \<^verbatim>\<open>translate_openai\<close> raises and
  the endpoint falls through to the identity translation. In every environment the
  endpoint returns such a dictionary and never an error.
\<close>

theorem translate_identity_without_key:
  "(key_missing (engine_OPENAI_API_KEY env) \<longrightarrow>
       translate_openai env text = ([], Inl (Exn ''RuntimeError'' ''OpenAI key not configured''))
       \<and> translate env text = ([], Inr [(''translated_text'', text)]))
   \<and> (\<exists>t. snd (translate env text) = Inr [(''translated_text'', t)])"
proof (intro conjI impI)
  assume missing: "key_missing (engine_OPENAI_API_KEY env)"
  then show raises: "translate_openai env text
      = ([], Inl (Exn ''RuntimeError'' ''OpenAI key not configured''))"
    by (simp add: translate_openai_def act_raise_def)
  show "translate env text = ([], Inr [(''translated_text'', text)])"
    unfolding translate_def raises
    by (simp add: translate_local_def act_bind_def act_try_def act_ret_def)
next
  show "\<exists>t. snd (translate env text) = Inr [(''translated_text'', t)]"
    by (simp add: translate_def act_simps split: sum.splits)
qed

theorem translate_identity_without_key_witness:
  "translate_openai env_offline ''Bonjour''
     = ([], Inl (Exn ''RuntimeError'' ''OpenAI key not configured''))
   \<and> translate env_offline ''Bonjour'' = ([], Inr [(''translated_text'', ''Bonjour'')])"
proof -
  have "key_missing (engine_OPENAI_API_KEY env_offline)"
    by (simp add: key_missing_def engine_OPENAI_API_KEY_def env_offline_def)
  with translate_identity_without_key [of env_offline "''Bonjour''"] show ?thesis by blast
qed

text \<open>
  Claim C4. The local translation fallback returns exactly the input text and never
  fails: \<^verbatim>\<open>translate_local\<close> of the translation engine is the identity, and so is the
  wrapper \<^verbatim>\<open>translate_local\<close> of the interactive application in every environment,
  whether the import of the engine module succeeds or not.
\<close>

theorem translate_local_identity:
  "translate_local text = text
   \<and> app_translate_local env text = ([Call ''translate_local''], Inr text)"
  by (simp add: translate_local_def app_translate_local_def called_def py_import_def act_bind_def
      act_try_def act_ret_def act_raise_def act_emit_def)

theorem translate_local_identity_witness:
  "translate_local ''Bonjour'' = ''Bonjour''
   \<and> app_translate_local (env_offline \<lparr> importable := (\<lambda>m. False) \<rparr>) ''Bonjour''
       = ([Call ''translate_local''], Inr ''Bonjour'')"
  by (rule translate_local_identity)

section \<open>Properties of the helpers of the interactive application\<close>

text \<open>
  Claim C8. Language detection is total: for every text, the empty one included,
  \<^verbatim>\<open>detect_language_local\<close> returns a string and never raises. When \<^verbatim>\<open>langdetect\<close> cannot be
  imported or its detector raises on the text, the string is the sentinel \<^verbatim>\<open>unknown\<close>;
  otherwise it is the code that the detector returned.
\<close>

theorem detect_language_local_total:
  "(\<exists>code. snd (detect_language_local env text) = Inr code)
   \<and> (\<not> importable env ''langdetect'' \<or> (\<exists>e. langdetect_detect env text = Inl e)
        \<longrightarrow> snd (detect_language_local env text) = Inr ''unknown'')
   \<and> (\<forall>code. importable env ''langdetect'' \<and> langdetect_detect env text = Inr code
        \<longrightarrow> snd (detect_language_local env text) = Inr code)"
proof (cases "importable env ''langdetect''")
  case False
  then have "snd (detect_language_local env text) = Inr ''unknown''"
    by (simp add: detect_language_local_def act_simps py_import_def)
  with False show ?thesis by simp
next
  case True
  show ?thesis
  proof (cases "langdetect_detect env text")
    case (Inl e)
    with True have "snd (detect_language_local env text) = Inr ''unknown''"
      by (simp add: detect_language_local_def act_simps py_import_def)
    with Inl show ?thesis by simp
  next
    case (Inr code)
    with True have "snd (detect_language_local env text) = Inr code"
      by (simp add: detect_language_local_def act_simps py_import_def)
    with True Inr show ?thesis by simp
  qed
qed

theorem detect_language_local_total_witness:
  "snd (detect_language_local env_offline '''') = Inr ''unknown''
   \<and> snd (detect_language_local (env_offline \<lparr> importable := (\<lambda>m. m \<noteq> ''langdetect'') \<rparr>) ''Bonjour'')
       = Inr ''unknown''
   \<and> snd (detect_language_local env_offline ''Bonjour'') = Inr ''fr''"
proof -
  have a: "\<exists>e. langdetect_detect env_offline '''' = Inl e"
    by (simp add: env_offline_def py_strip_def)
  have b: "\<not> importable (env_offline \<lparr> importable := (\<lambda>m. m \<noteq> ''langdetect'') \<rparr>) ''langdetect''"
    by simp
  have c: "importable env_offline ''langdetect'' \<and> langdetect_detect env_offline ''Bonjour'' = Inr ''fr''"
    by (simp add: env_offline_def py_strip_def is_space_def)
  show ?thesis
    using detect_language_local_total [of env_offline "''''"] a
      detect_language_local_total [of "env_offline \<lparr> importable := (\<lambda>m. m \<noteq> ''langdetect'') \<rparr>" "''Bonjour''"] b
      detect_language_local_total [of env_offline "''Bonjour''"] c
    by blast
qed

text \<open>
  Claim C10. When the backend answers with a success status and a JSON object that
  lacks the expected key, the remote helpers return the empty string instead of raising:
  \<^verbatim>\<open>call_remote_translate\<close> when \<^verbatim>\<open>translated_text\<close> is absent, \<^verbatim>\<open>call_remote_response\<close> when
  \<^verbatim>\<open>reply\<close> is absent.
\<close>

theorem remote_helpers_default_to_empty:
  assumes "\<not> (400 \<le> status_code resp \<and> status_code resp < 600)"
      and "json resp = Inr (JObject kvs)"
  shows "(requests_post env (BACKEND_URL env @ ''/translate'') [(''text'', text)] = Inr resp
           \<and> map_of kvs ''translated_text'' = None
          \<longrightarrow> snd (call_remote_translate env text) = Inr '''')
       \<and> (requests_post env (BACKEND_URL env @ ''/response'')
              [(''translated_text'', text), (''name'', arg_default name '''')] = Inr resp
           \<and> map_of kvs ''reply'' = None
          \<longrightarrow> snd (call_remote_response env text name) = Inr '''')"
  using assms
  by (auto simp: call_remote_translate_def call_remote_response_def act_simps http_post_def
      raise_for_status_def body_get_def)

theorem remote_helpers_default_to_empty_witness:
  "snd (call_remote_translate env_online ''Bonjour'') = Inr ''''
   \<and> snd (call_remote_response env_online ''Hello'' (Some ''Ana'')) = Inr ''''"
proof -
  let ?resp = "\<lparr> status_code = 200, json = Inr (JObject []) \<rparr>"
  have ok: "\<not> (400 \<le> status_code ?resp \<and> status_code ?resp < 600)" by simp
  have body: "json ?resp = Inr (JObject [])" by simp
  have a: "requests_post env_online (BACKEND_URL env_online @ ''/translate'') [(''text'', ''Bonjour'')]
             = Inr ?resp \<and> map_of [] ''translated_text'' = (None :: string option)"
    by (simp add: env_online_def)
  have b: "requests_post env_online (BACKEND_URL env_online @ ''/response'')
             [(''translated_text'', ''Hello''), (''name'', arg_default (Some ''Ana'') '''')]
             = Inr ?resp \<and> map_of [] ''reply'' = (None :: string option)"
    by (simp add: env_online_def)
  show ?thesis
    using remote_helpers_default_to_empty [OF ok body, of env_online "''Bonjour''"] a
      remote_helpers_default_to_empty [OF ok body, of env_online "''Hello''" "Some ''Ana''"] b
    by blast
qed

text \<open>A body that is JSON but no object has no method \<^verbatim>\<open>get\<close>: the helper wraps the
  \<^verbatim>\<open>AttributeError\<close> like any other failure of the call.\<close>

lemma call_remote_translate_not_an_object:
  assumes "requests_post env (BACKEND_URL env @ ''/translate'') [(''text'', text)] = Inr resp"
      and "\<not> (400 \<le> status_code resp \<and> status_code resp < 600)"
      and "json resp = Inr JOther"
  shows "\<exists>m. snd (call_remote_translate env text)
              = Inl (Exn ''RuntimeError'' (''Remote translation failed: '' @ m))"
  using assms
  by (simp add: call_remote_translate_def act_simps http_post_def raise_for_status_def
      body_get_def)

section \<open>Properties of the reply generator\<close>

lemma py_format_well_formed:
  "well_formed tpl \<Longrightarrow>
   py_format tpl [(''name'', nm), (''excerpt'', ex)] = Inr (fill_template tpl nm ex)"
  by (induction tpl nm ex rule: fill_template.induct)
    (auto simp: well_formed_def res_bind_def)

lemma py_format_ill_formed:
  "\<not> well_formed tpl \<Longrightarrow> \<exists>e. py_format tpl [(''name'', nm), (''excerpt'', ex)] = Inl e"
  by (induction tpl nm ex rule: fill_template.induct)
    (auto simp: well_formed_def res_bind_def)

lemma py_or_reply_name: "py_or (arg_default name '''') ''Customer'' = reply_name name"
  by (cases name) (auto simp: py_or_def arg_default_def reply_name_def py_truthy_def)

lemma py_slice_to_excerpt: "py_slice_to 120 text = reply_excerpt text"
  by (simp add: py_slice_to_def reply_excerpt_def)

lemma last_resort_fill:
  "''Hi '' @ nm @ '', thanks for reaching out. We received your message: ''
     @ dq @ ex @ ''...'' @ dq @ '' We'll get back within 24 hours.''
   = fill_template LAST_RESORT_TEMPLATE nm ex"
  by (simp add: LAST_RESORT_TEMPLATE_def)

lemma reply_name_Some_default: "reply_name (Some (arg_default name '''')) = reply_name name"
  by (cases name) (auto simp: arg_default_def reply_name_def)

lemma app_generate_local_reply_unfold:
  "app_generate_local_reply env text name =
     called ''generate_local_reply''
       (act_try
          (act_bind (py_import env ''backend.response_generator'') (\<lambda>_.
           act_lift (py_format (CANNED_REPLY_TEMPLATE env)
                       [(''name'', reply_name name), (''excerpt'', reply_excerpt text)])))
          (\<lambda>e.
             act_try
               (act_bind (py_import env ''utils.prompts'') (\<lambda>_.
                act_lift (py_format (CANNED_REPLY_TEMPLATE env)
                            [(''name'', reply_name name), (''excerpt'', reply_excerpt text)])))
               (\<lambda>e. act_ret (fill_template LAST_RESORT_TEMPLATE (reply_name name)
                                 (reply_excerpt text)))))"
  unfolding app_generate_local_reply_def generate_local_reply_def Let_def
  by (simp only: py_or_reply_name reply_name_Some_default py_slice_to_excerpt last_resort_fill)

text \<open>
  Claim C5. For every translated text and name, \<^verbatim>\<open>generate_local_reply\<close> returns the canned
  template with the name put into its name placeholder, the literal \<^verbatim>\<open>Customer\<close> when the
  name is the empty string or absent, and with the excerpt placeholder filled by exactly
  the first 120 characters of the translated text, which is the whole text when it has
  at most 120 characters. The template is one whose placeholders are the name and the
  excerpt, as the spec describes it. The wrapper of the interactive application returns
  the same filling of the canned template, or of its own last-resort template when the
  canned one cannot be used.
\<close>

theorem generate_local_reply_canned:
  "(well_formed tpl \<longrightarrow>
      generate_local_reply tpl text name
        = Inr (fill_template tpl (reply_name name) (reply_excerpt text)))
   \<and> snd (app_generate_local_reply env text name)
        = Inr (fill_template
                 (if well_formed (CANNED_REPLY_TEMPLATE env)
                     \<and> (importable env ''backend.response_generator'' \<or> importable env ''utils.prompts'')
                  then CANNED_REPLY_TEMPLATE env else LAST_RESORT_TEMPLATE)
                 (reply_name name) (reply_excerpt text))
   \<and> (length text \<le> 120 \<longrightarrow> reply_excerpt text = text)"
proof (intro conjI impI)
  assume "well_formed tpl"
  then show "generate_local_reply tpl text name
        = Inr (fill_template tpl (reply_name name) (reply_excerpt text))"
    by (simp add: generate_local_reply_def py_or_reply_name py_slice_to_excerpt py_format_well_formed)
next
  assume "length text \<le> 120"
  then show "reply_excerpt text = text" by (simp add: reply_excerpt_def)
next
  let ?T = "CANNED_REPLY_TEMPLATE env"
  let ?kw = "[(''name'', reply_name name), (''excerpt'', reply_excerpt text)]"
  show "snd (app_generate_local_reply env text name)
        = Inr (fill_template
                 (if well_formed ?T
                     \<and> (importable env ''backend.response_generator'' \<or> importable env ''utils.prompts'')
                  then ?T else LAST_RESORT_TEMPLATE)
                 (reply_name name) (reply_excerpt text))"
  proof (cases "well_formed ?T")
    case True
    then have "py_format ?T ?kw = Inr (fill_template ?T (reply_name name) (reply_excerpt text))"
      by (rule py_format_well_formed)
    then show ?thesis
      using True by (simp add: app_generate_local_reply_unfold act_simps py_import_def)
  next
    case False
    then obtain e where "py_format ?T ?kw = Inl e"
      using py_format_ill_formed by blast
    then show ?thesis
      using False by (simp add: app_generate_local_reply_unfold act_simps py_import_def)
  qed
qed

theorem generate_local_reply_canned_witness:
  "generate_local_reply sample_template ''Bonjour'' None
     = Inr ''Hello Customer, thank you for your message: Bonjour - our team will reply shortly.''
   \<and> generate_local_reply sample_template (replicate 200 CHR ''a'') (Some ''Ana'')
     = Inr (''Hello Ana, thank you for your message: '' @ replicate 120 CHR ''a''
            @ '' - our team will reply shortly.'')"
proof -
  have wf: "well_formed sample_template"
    by (simp add: well_formed_def sample_template_def)
  have short: "length ''Bonjour'' \<le> 120" by simp
  have a: "generate_local_reply sample_template ''Bonjour'' None
        = Inr (fill_template sample_template (reply_name None) (reply_excerpt ''Bonjour''))"
    and b: "reply_excerpt ''Bonjour'' = ''Bonjour''"
    using generate_local_reply_canned [of sample_template "''Bonjour''" None] wf short by blast+
  have c: "generate_local_reply sample_template (replicate 200 CHR ''a'') (Some ''Ana'')
        = Inr (fill_template sample_template (reply_name (Some ''Ana''))
                 (reply_excerpt (replicate 200 CHR ''a'')))"
    using generate_local_reply_canned [of sample_template "replicate 200 CHR ''a''" "Some ''Ana''"] wf
    by blast
  show ?thesis
    unfolding a b c by (simp add: sample_template_def reply_name_def reply_excerpt_def)
qed

section \<open>The translation request\<close>

text \<open>
  Claim C6, as stated, fails for \<^verbatim>\<open>translate_openai\<close> of the translation engine: the
  request it sends for the text \<^verbatim>\<open>Hola\<close> does not start with the instruction prompt of the
  spec.
\<close>

theorem engine_prompt_counterexample:
  "\<not> sends_translation_request spec_instruction ''Hola'' (fst (translate_openai env_online ''Hola''))"
  by (simp add: sends_translation_request_def translate_openai_def env_online_def
      engine_OPENAI_API_KEY_def key_missing_def py_truthy_def act_simps py_import_def
      chat_completion_create_def is_translation_request_def spec_instruction_def nl_def Let_def)

lemma sublist_in_prompt: "sublist text (a @ b @ c @ d @ e @ text @ f)"
  by (metis sublist_appendI append.assoc)

lemma trace_translate_with_openai:
  assumes "py_truthy (app_OPENAI_API_KEY env)" and "importable env ''openai''"
  shows "fst (translate_with_openai env text) =
     [Call ''translate_with_openai'',
      ChatCompletion
        \<lparr> model = model_name env,
          messages = [(''user'', spec_instruction @ nl @ nl @ ''Text:'' @ nl @ text @ nl @ nl
                                 @ ''Translate into English:'')],
          temperature = 0, max_tokens = 1024 \<rparr>]"
  using assms
  by (auto simp: translate_with_openai_def act_simps py_import_def chat_completion_create_def
      spec_instruction_def Let_def split: sum.splits)

lemma trace_translate_openai:
  assumes "\<not> key_missing (engine_OPENAI_API_KEY env)" and "importable env ''openai''"
  shows "fst (translate_openai env text) =
     [ChatCompletion
        \<lparr> model = model_name env,
          messages = [(''user'', engine_instruction @ nl @ nl @ ''Text:'' @ nl @ text @ nl @ nl
                                 @ ''Translate into English:'')],
          temperature = 0, max_tokens = 1024 \<rparr>]"
  using assms
  by (auto simp: translate_openai_def act_simps py_import_def chat_completion_create_def
      engine_instruction_def Let_def split: sum.splits)

text \<open>
  Claim C6, amended. With a key configured and the \<^verbatim>\<open>openai\<close> module in place,
  \<^verbatim>\<open>translate_with_openai\<close> of the interactive application sends one request, whose one
  message has the role \<^verbatim>\<open>user\<close> and starts with the instruction prompt of the spec and
  embeds the input text, with temperature 0.0 and at most 1024 output tokens;
  \<^verbatim>\<open>translate_openai\<close> of the translation engine sends one request of the same shape whose
  message starts with the engine's own instruction prompt instead.
\<close>

theorem translation_request_shape:
  "(py_truthy (app_OPENAI_API_KEY env) \<and> importable env ''openai'' \<longrightarrow>
      sends_translation_request spec_instruction text (fst (translate_with_openai env text)))
   \<and> (\<not> key_missing (engine_OPENAI_API_KEY env) \<and> importable env ''openai'' \<longrightarrow>
      sends_translation_request engine_instruction text (fst (translate_openai env text)))"
proof -
  have "sublist text (spec_instruction @ nl @ nl @ ''Text:'' @ nl @ text @ nl @ nl
                      @ ''Translate into English:'')"
    and "sublist text (engine_instruction @ nl @ nl @ ''Text:'' @ nl @ text @ nl @ nl
                      @ ''Translate into English:'')"
    by (rule sublist_in_prompt)+
  then show ?thesis
    by (simp add: trace_translate_with_openai trace_translate_openai sends_translation_request_def
        is_translation_request_def)
qed

theorem translation_request_shape_witness:
  "sends_translation_request spec_instruction ''Hola'' (fst (translate_with_openai env_online ''Hola''))
   \<and> sends_translation_request engine_instruction ''Hola'' (fst (translate_openai env_online ''Hola''))"
proof -
  have "py_truthy (app_OPENAI_API_KEY env_online) \<and> importable env_online ''openai''"
    by (simp add: app_OPENAI_API_KEY_def getenv_default_def env_online_def py_truthy_def)
  moreover have "\<not> key_missing (engine_OPENAI_API_KEY env_online) \<and> importable env_online ''openai''"
    by (simp add: engine_OPENAI_API_KEY_def key_missing_def env_online_def py_truthy_def)
  ultimately show ?thesis
    using translation_request_shape [of env_online "''Hola''"] by blast
qed

section \<open>The page: translation before reply generation\<close>

lemma fst_http_post [simp]: "fst (http_post env url body) = [HttpPost url body]"
  by (simp add: http_post_def)

lemma fst_raise_for_status [simp]: "fst (raise_for_status resp) = []"
  by (simp add: raise_for_status_def)

lemma fst_body_get [simp]: "fst (body_get data k d) = []"
  by (cases data) (simp_all add: body_get_def)

lemma fst_chat_completion_create [simp]:
  "fst (chat_completion_create env req) = [ChatCompletion req]"
  by (simp add: chat_completion_create_def)

lemma not_call_simps [simp]:
  "\<not> is_reply_call (HttpPost url body)" "\<not> is_reply_call (ChatCompletion req)"
  "\<not> is_reply_call (Ui wd t)"
  "\<not> is_translate_call (HttpPost url body)" "\<not> is_translate_call (ChatCompletion req)"
  "\<not> is_translate_call (Ui wd t)"
  by (simp_all add: is_reply_call_def is_translate_call_def)

subsection \<open>The translation strategies enter no reply strategy\<close>

lemma detect_language_local_calls:
  "no_reply_call (fst (detect_language_local env msg))"
  "no_translate_call (fst (detect_language_local env msg))"
  by (simp_all add: no_reply_call_def no_translate_call_def detect_language_local_def act_simps
      is_reply_call_def is_translate_call_def split: sum.splits)

lemma detect_language_local_returns:
  "\<exists>code. snd (detect_language_local env msg) = Inr code"
  by (simp add: detect_language_local_def act_simps split: sum.splits)

lemma call_remote_translate_no_reply:
  "no_reply_call (fst (call_remote_translate env msg))"
  by (simp add: no_reply_call_def call_remote_translate_def act_simps is_reply_call_def
      split: sum.splits)

lemma translate_with_openai_no_reply:
  "no_reply_call (fst (translate_with_openai env msg))"
  by (simp add: no_reply_call_def translate_with_openai_def act_simps is_reply_call_def Let_def
      split: sum.splits)

lemma app_translate_local_no_reply:
  "no_reply_call (fst (app_translate_local env msg))"
  by (simp add: no_reply_call_def app_translate_local_def act_simps is_reply_call_def
      split: sum.splits)

lemma resolve_translation_no_reply:
  "no_reply_call (fst (resolve_translation env st msg))"
  using call_remote_translate_no_reply [of env msg] translate_with_openai_no_reply [of env msg]
    app_translate_local_no_reply [of env msg]
  by (simp add: no_reply_call_def resolve_translation_def act_simps Let_def split: sum.splits)

lemma resolve_translation_total:
  "\<exists>t err. snd (resolve_translation env st msg) = Inr (t, err)"
  by (simp add: resolve_translation_def act_simps Let_def split: sum.splits)

text \<open>Every path through lines 190 to 217 enters a translation strategy first.\<close>

lemma translate_strategies_enter:
  "\<exists>tr. fst (call_remote_translate env msg) = Call ''call_remote_translate'' # tr"
  "\<exists>tr. fst (translate_with_openai env msg) = Call ''translate_with_openai'' # tr"
  "\<exists>tr. fst (app_translate_local env msg) = Call ''translate_local'' # tr"
  by (simp_all add: call_remote_translate_def translate_with_openai_def app_translate_local_def
      fst_called)

lemma resolve_translation_enters:
  "list_ex is_translate_call (fst (resolve_translation env st msg))"
proof -
  obtain a b c where
    "fst (call_remote_translate env msg) = Call ''call_remote_translate'' # a"
    "fst (translate_with_openai env msg) = Call ''translate_with_openai'' # b"
    "fst (app_translate_local env msg) = Call ''translate_local'' # c"
    using translate_strategies_enter by blast
  then show ?thesis
    by (simp add: resolve_translation_def act_simps is_translate_call_def)
qed

subsection \<open>The reply strategies enter no translation strategy\<close>

lemma call_remote_response_no_translate:
  "no_translate_call (fst (call_remote_response env msg name))"
  by (simp add: no_translate_call_def call_remote_response_def act_simps is_translate_call_def
      split: sum.splits)

lemma generate_reply_with_openai_no_translate:
  "no_translate_call (fst (generate_reply_with_openai env msg name temp))"
  by (simp add: no_translate_call_def generate_reply_with_openai_def act_simps
      is_translate_call_def Let_def split: sum.splits)

lemma app_generate_local_reply_no_translate:
  "no_translate_call (fst (app_generate_local_reply env msg name))"
  by (simp add: no_translate_call_def app_generate_local_reply_unfold act_simps
      is_translate_call_def split: sum.splits)

lemma generate_suggestion_no_translate:
  "no_translate_call (fst (generate_suggestion env st msg name))"
  using call_remote_response_no_translate [of env msg "Some name"]
    generate_reply_with_openai_no_translate [of env msg "Some name" "Some (ai_temperature st)"]
    app_generate_local_reply_no_translate [of env msg "Some name"]
  by (simp add: no_translate_call_def generate_suggestion_def act_simps split: sum.splits)

lemma generate_suggestion_total:
  "\<exists>s err. snd (generate_suggestion env st msg name) = Inr (s, err)"
  by (simp add: generate_suggestion_def act_simps split: sum.splits)

lemma show_translation_no_translate:
  "no_translate_call (fst (show_translation env st w t))"
proof -
  obtain s err where "snd (generate_suggestion env st t (customer_name w)) = Inr (s, err)"
    using generate_suggestion_total by blast
  then show ?thesis
    using generate_suggestion_no_translate [of env st t "customer_name w"]
    by (simp add: no_translate_call_def show_translation_def act_simps)
qed

lemma show_translation_total: "\<exists>s. snd (show_translation env st w t) = Inr s"
proof -
  obtain s err where "snd (generate_suggestion env st t (customer_name w)) = Inr (s, err)"
    using generate_suggestion_total by blast
  then show ?thesis
    by (simp add: show_translation_def act_simps)
qed

lemma show_translation_empty:
  "show_translation env st w '''' = ([Ui ''warning'' ''No translation was produced.''], Inr '''')"
  by (simp add: show_translation_def py_truthy_def act_bind_def act_ret_def ui_def act_emit_def)

lemma evaluation_block_calls:
  "no_reply_call (fst (evaluation_block env J files w out))"
  "no_translate_call (fst (evaluation_block env J files w out))"
  "\<exists>files'. snd (evaluation_block env J files w out) = Inr files'"
  by (simp_all add: no_reply_call_def no_translate_call_def evaluation_block_def
      save_evaluation_local_def act_simps is_reply_call_def is_translate_call_def
      split: sum.splits)

subsection \<open>The order of the whole run\<close>

lemma replies_after_translation_no_reply:
  "no_reply_call tr \<Longrightarrow> replies_after_translation seen tr"
  by (induction tr arbitrary: seen) (simp_all add: no_reply_call_def)

lemma replies_after_translation_seen:
  "no_translate_call tr \<Longrightarrow> replies_after_translation True tr"
  by (induction tr) (simp_all add: no_translate_call_def)

lemma replies_after_translation_seen_append:
  "no_reply_call pre \<Longrightarrow> no_translate_call post \<Longrightarrow> replies_after_translation True (pre @ post)"
  by (induction pre) (simp_all add: no_reply_call_def replies_after_translation_seen)

lemma replies_after_translation_append:
  "no_reply_call pre \<Longrightarrow> list_ex is_translate_call pre \<Longrightarrow> no_translate_call post \<Longrightarrow>
   replies_after_translation seen (pre @ post)"
proof (induction pre arbitrary: seen)
  case Nil
  then show ?case by simp
next
  case (Cons ev pre)
  from Cons.prems(1) have ev: "\<not> is_reply_call ev" and pre: "no_reply_call pre"
    by (simp_all add: no_reply_call_def)
  show ?case
  proof (cases "is_translate_call ev")
    case True
    with ev replies_after_translation_seen_append [OF pre Cons.prems(3)] show ?thesis by simp
  next
    case False
    with Cons.prems(2) have "list_ex is_translate_call pre" by simp
    with ev Cons.IH [OF pre _ Cons.prems(3)] show ?thesis by simp
  qed
qed

text \<open>A run that processes a message: the trace up to the display of the translation
  (\<open>pre\<close>), the display of the translation with the reply generation (\<open>shown\<close>), and the
  evaluation controls (\<open>rest\<close>).\<close>

lemma on_submit_processing:
  assumes "submit_btn w" and "py_truthy (py_strip (incoming_text w))"
  shows "\<exists>pre shown rest t s lang files'.
           on_submit env J files st w
             = (pre @ shown @ rest,
                Inr (\<lparr> translated = t, suggested = s, detected_lang = lang \<rparr>, files'))
           \<and> no_reply_call pre \<and> list_ex is_translate_call pre
           \<and> show_translation env st w t = (shown, Inr s)
           \<and> no_translate_call shown
           \<and> no_reply_call rest \<and> no_translate_call rest"
proof -
  obtain lang where lang: "snd (detect_language_local env (incoming_text w)) = Inr lang"
    using detect_language_local_returns by blast
  obtain t err where res: "snd (resolve_translation env st (incoming_text w)) = Inr (t, err)"
    using resolve_translation_total by blast
  obtain s where sh: "snd (show_translation env st w t) = Inr s"
    using show_translation_total by blast
  let ?out = "\<lparr> translated = t, suggested = s, detected_lang = lang \<rparr>"
  obtain files' where ev: "snd (evaluation_block env J files w ?out) = Inr files'"
    using evaluation_block_calls(3) by blast
  let ?pre = "Ui ''markdown'' ''### Processing'' # fst (detect_language_local env (incoming_text w))
      @ Ui ''write'' (''**Detected language code:** `'' @ lang @ ''`'')
      # fst (resolve_translation env st (incoming_text w))
      @ fst (if error_truthy err then ui ''error'' (arg_default err '''') else act_ret ())"
  let ?shown = "fst (show_translation env st w t)"
  let ?rest = "fst (evaluation_block env J files w ?out)"
  have "fst (on_submit env J files st w) = ?pre @ ?shown @ ?rest"
    using assms lang res sh ev by (simp add: on_submit_def act_simps Let_def)
  moreover have "snd (on_submit env J files st w) = Inr (?out, files')"
    using assms lang res sh ev by (simp add: on_submit_def act_simps Let_def)
  ultimately have eq: "on_submit env J files st w = (?pre @ ?shown @ ?rest, Inr (?out, files'))"
    by (simp add: prod_eq_iff)
  have pre: "no_reply_call ?pre"
    using detect_language_local_calls(1) [of env "incoming_text w"]
      resolve_translation_no_reply [of env st "incoming_text w"]
    by (simp add: no_reply_call_def)
  have enters: "list_ex is_translate_call ?pre"
    using resolve_translation_enters [of env st "incoming_text w"] by simp
  have shown: "show_translation env st w t = (?shown, Inr s)"
    using sh by (simp add: prod_eq_iff)
  show ?thesis
    using eq pre enters shown show_translation_no_translate [of env st w t]
      evaluation_block_calls(1,2) [of env J files w ?out]
    by blast
qed

text \<open>
  Claim C7. A run of the page over a submitted form always ends with values for
  \<^verbatim>\<open>translated\<close> and \<^verbatim>\<open>suggested\<close>. If the resolved translated text is the empty string,
  no reply strategy (the backend's \<^verbatim>\<open>/response\<close>, the language model, the canned template)
  is entered anywhere in the run and the suggested reply is the empty string. In every
  run translation precedes reply generation: wherever a reply strategy is entered, a
  translation strategy has been entered before and none is entered afterwards.
\<close>

theorem reply_generation_needs_translation:
  "\<exists>out files'. snd (on_submit env J files st w) = Inr (out, files')
     \<and> (translated out = '''' \<longrightarrow>
          suggested out = '''' \<and> no_reply_call (fst (on_submit env J files st w)))
     \<and> translation_first (fst (on_submit env J files st w))"
proof (cases "submit_btn w \<and> py_truthy (py_strip (incoming_text w))")
  case False
  then show ?thesis
    by (auto simp: on_submit_def Let_def act_simps no_reply_call_def translation_first_def)
next
  case True
  then obtain pre shown rest t s lang files' where
    eq: "on_submit env J files st w
           = (pre @ shown @ rest,
              Inr (\<lparr> translated = t, suggested = s, detected_lang = lang \<rparr>, files'))"
    and pre: "no_reply_call pre" and enters: "list_ex is_translate_call pre"
    and sh: "show_translation env st w t = (shown, Inr s)"
    and shown: "no_translate_call shown"
    and rest: "no_reply_call rest" "no_translate_call rest"
    using on_submit_processing [of w env J files st] by blast
  have "no_translate_call (shown @ rest)"
    using shown rest(2) by (simp add: no_translate_call_def)
  with pre enters have first: "translation_first (pre @ shown @ rest)"
    unfolding translation_first_def by (rule replies_after_translation_append)
  have empty: "s = '''' \<and> no_reply_call (pre @ shown @ rest)" if "t = ''''"
  proof -
    from sh that have "shown = [Ui ''warning'' ''No translation was produced.'']" and "s = ''''"
      by (simp_all add: show_translation_empty)
    with pre rest(1) show ?thesis by (simp add: no_reply_call_def)
  qed
  show ?thesis
    using eq first empty by simp
qed

lemma run_online_remote:
  "map_sum id fst (snd (on_submit env_online ref_json Map.empty settings_remote sample_widgets))
     = Inr \<lparr> translated = '''', suggested = '''', detected_lang = ''fr'' \<rparr>"
  by (simp add: on_submit_def Let_def act_simps sample_widgets_def py_strip_def is_space_def
      py_truthy_def detect_language_local_def env_online_def py_import_def
      resolve_translation_def settings_remote_def py_startswith_def call_remote_translate_def
      http_post_def raise_for_status_def body_get_def error_truthy_def show_translation_empty
      evaluation_block_def)

theorem reply_generation_needs_translation_witness:
  "(\<exists>out files'.
       snd (on_submit env_online ref_json Map.empty settings_remote sample_widgets) = Inr (out, files')
       \<and> translated out = '''' \<and> suggested out = ''''
       \<and> no_reply_call (fst (on_submit env_online ref_json Map.empty settings_remote sample_widgets)))
   \<and> translation_first (fst (on_submit env_offline ref_json Map.empty settings_remote sample_widgets))"
proof
  obtain out files' where
    r: "snd (on_submit env_online ref_json Map.empty settings_remote sample_widgets) = Inr (out, files')"
    and e: "translated out = '''' \<longrightarrow> suggested out = ''''
        \<and> no_reply_call (fst (on_submit env_online ref_json Map.empty settings_remote sample_widgets))"
    using reply_generation_needs_translation [of env_online ref_json Map.empty settings_remote sample_widgets]
    by blast
  from r run_online_remote have "translated out = ''''" by auto
  with r e show "\<exists>out files'.
       snd (on_submit env_online ref_json Map.empty settings_remote sample_widgets) = Inr (out, files')
       \<and> translated out = '''' \<and> suggested out = ''''
       \<and> no_reply_call (fst (on_submit env_online ref_json Map.empty settings_remote sample_widgets))"
    by blast
  show "translation_first (fst (on_submit env_offline ref_json Map.empty settings_remote sample_widgets))"
    using reply_generation_needs_translation [of env_offline ref_json Map.empty settings_remote sample_widgets]
    by blast
qed

section \<open>A run from end to end\<close>

text \<open>The operator submits a French message with the backend choice \<^verbatim>\<open>local\<close>, the
  translation preference \<^verbatim>\<open>local\<close> and the canned response mode, in a process without a
  key: the translated text is the message itself, and the suggested reply is the canned
  template filled with \<^verbatim>\<open>Customer\<close> and the whole message, which has fewer than 120
  characters. Saving the evaluation then writes the one-entry history.\<close>

lemma run_offline_local:
  "map_sum id fst (snd (on_submit env_offline ref_json Map.empty settings_local sample_widgets))
     = Inr \<lparr> translated = ''Bonjour, je voudrais annuler ma commande.'',
             suggested = ''Hello Customer, thank you for your message: Bonjour, je voudrais annuler ma commande. - our team will reply shortly.'',
             detected_lang = ''fr'' \<rparr>"
  by (simp add: on_submit_def Let_def act_simps sample_widgets_def py_strip_def is_space_def
      py_truthy_def detect_language_local_def env_offline_def py_import_def
      resolve_translation_def settings_local_def py_startswith_def app_translate_local_def
      translate_local_def error_truthy_def show_translation_def generate_suggestion_def
      app_generate_local_reply_def generate_local_reply_def sample_template_def res_bind_def
      py_or_def arg_default_def py_slice_to_def evaluation_block_def app_OPENAI_API_KEY_def
      getenv_default_def)

lemma run_offline_local_saved:
  "map_sum id (\<lambda>(out, files'). files' DATA_FILE)
     (snd (on_submit env_offline ref_json Map.empty settings_local (sample_widgets \<lparr> save_btn := True \<rparr>)))
   = Inr (Some (dumps ref_json 2
       (PList [PDict [(''input'', PStr ''Bonjour, je voudrais annuler ma commande.''),
                      (''detected_language'', PStr ''fr''),
                      (''translated'', PStr ''Bonjour, je voudrais annuler ma commande.''),
                      (''suggested'', PStr ''Hello Customer, thank you for your message: Bonjour, je voudrais annuler ma commande. - our team will reply shortly.''),
                      (''rating'', PInt 4),
                      (''comments'', PStr '''')]])))"
  by (simp add: on_submit_def Let_def act_simps sample_widgets_def py_strip_def is_space_def
      py_truthy_def detect_language_local_def env_offline_def py_import_def
      resolve_translation_def settings_local_def py_startswith_def app_translate_local_def
      translate_local_def error_truthy_def show_translation_def generate_suggestion_def
      app_generate_local_reply_def generate_local_reply_def sample_template_def res_bind_def
      py_or_def arg_default_def py_slice_to_def evaluation_block_def app_OPENAI_API_KEY_def
      getenv_default_def save_evaluation_local_def save_evaluation_def path_exists_def
      DATA_FILE_def evaluation_entry_def py_append_def write_text_def)

end
